theory Spec2Isabelle
  imports Complex_Main "HOL-Library.Word" "HOL-Library.Log_Nat" "HOL-Library.Signed_Division"
begin

section \<open>Provider-side market commands of the storage miner (market.go)\<close>

text \<open>
  The commands of \<^verbatim>\<open>cmd/lotus-storage-miner/market.go\<close> are thin wrappers around two
  remote services and three libraries. The commands themselves are embedded line by
  line; everything they call that lives outside the file (the JSON-RPC API of the miner
  and of the full node, Go's \<^verbatim>\<open>time\<close> and \<^verbatim>\<open>text/tabwriter\<close>, \<^verbatim>\<open>go-units\<close>,
  \<^verbatim>\<open>go-cid\<close>, the constant \<^verbatim>\<open>build.BlockDelay\<close>) is a field of the record \<open>env\<close>,
  so that every theorem holds for whatever these collaborators answer.

  Go's \<^verbatim>\<open>int64\<close> and \<^verbatim>\<open>uint64\<close> are both \<open>64 word\<close>: \<open>sint\<close> reads the signed value,
  \<open>uint\<close> the unsigned one, and a conversion between the two keeps the bits.
\<close>

subsection \<open>Errors and remote calls\<close>

type_synonym int64 = "64 word"
type_synonym uint64 = "64 word"
type_synonym address = string
type_synonym cid = string

text \<open>
  Every \<^verbatim>\<open>return err\<close> of the file is one constructor. \<open>External\<close> is an error
  handed back unchanged from a collaborator; the \<open>CannotParse\<close> constructors are the
  \<^verbatim>\<open>xerrors.Errorf("cannot parse ...: %w", err)\<close> wrappers of lines 93, 100 and 109;
  \<open>PieceSizeTooSmall\<close> is \<^verbatim>\<open>"minimum piece size (w/bit-padding) is 256B"\<close> (line 104);
  \<open>PieceSizeExceedsCapacity max smax\<close> is \<^verbatim>\<open>"max piece size (w/bit-padding) %s cannot
  exceed miner sector size %s"\<close> (line 129); \<open>MustSpecifyProposalAndFile\<close> is line 217.
  \<open>MalformedSize\<close> is returned only by the size parser modelled from the specification.
\<close>

datatype error =
    External string
  | CannotParseDuration error
  | CannotParseMinPieceSize error
  | PieceSizeTooSmall
  | CannotParseMaxPieceSize error
  | PieceSizeExceedsCapacity int64 int64
  | MustSpecifyProposalAndFile
  | MalformedSize

text \<open>The methods invoked on the miner API and on the full-node API, with their arguments.\<close>

datatype call =
    ActorAddress
  | ActorSectorSize address
  | MarketSetAsk int int64 uint64 uint64
  | MarketGetAsk
  | ChainHead
  | DealsImportData cid string

text \<open>\<^verbatim>\<open>storagemarket.StorageAsk\<close>, the fields that \<^verbatim>\<open>get-ask\<close> reads.\<close>

record StorageAsk =
  Price :: int
  MinPieceSize :: uint64
  MaxPieceSize :: uint64
  Expiry :: int64
  SeqNo :: uint64

text \<open>
  The collaborators. An \<open>error option\<close> is Go's \<^verbatim>\<open>error\<close> (\<open>None\<close> is \<^verbatim>\<open>nil\<close>); a sum is
  a \<^verbatim>\<open>(value, error)\<close> pair. \<open>MarketGetAsk_ret\<close> answers a pointer to a signed ask whose
  \<^verbatim>\<open>Ask\<close> field is again a pointer: both may be \<^verbatim>\<open>nil\<close>. \<open>ChainHead_ret\<close> answers the
  height of the head tipset.
\<close>

record env =
  BlockDelay :: int
  GetStorageMinerAPI :: "error option"
  GetFullNodeAPI :: "error option"
  ParseDuration :: "string \<Rightarrow> error + int64"
  RAMInBytes :: "string \<Rightarrow> error + int64"
  cid_Decode :: "string \<Rightarrow> error + cid"
  ActorAddress_ret :: "error + address"
  ActorSectorSize_ret :: "address \<Rightarrow> error + uint64"
  MarketSetAsk_ret :: "int \<Rightarrow> int64 \<Rightarrow> uint64 \<Rightarrow> uint64 \<Rightarrow> error option"
  MarketGetAsk_ret :: "error + StorageAsk option option"
  ChainHead_ret :: "error + int64"
  DealsImportData_ret :: "cid \<Rightarrow> string \<Rightarrow> error option"
  Duration_String :: "int64 \<Rightarrow> string"
  BigInt_String :: "int \<Rightarrow> string"
  SizeStr :: "int \<Rightarrow> string"
  fmt_d :: "int \<Rightarrow> string"
  Flush_ret :: "error option"

subsection \<open>Binary64 arithmetic\<close>

text \<open>
  \<^verbatim>\<open>dur.Seconds() / build.BlockDelay\<close> is a \<^verbatim>\<open>float64\<close> division. A finite binary64 value
  is a rational, and each operation returns the exact result rounded to the nearest
  value with a 53-bit significand, ties to the even significand. \<open>f64\<close> is that rounding
  in the normal range (no overflow to infinity, no subnormals): the magnitudes met here
  lie between \<open>10\<^sup>-\<^sup>9 / BlockDelay\<close> and \<open>2\<^sup>6\<^sup>3\<close>.
  \<open>ilog2 x\<close> is the exponent \<open>e\<close> with \<open>2\<^sup>e \<le> x < 2\<^sup>e\<^sup>+\<^sup>1\<close> for positive \<open>x\<close>.
\<close>

definition rne :: "rat \<Rightarrow> int" where
  "rne x = (let f = \<lfloor>x\<rfloor>; r = x - of_int f in
     if r < 1 / 2 then f else if 1 / 2 < r then f + 1 else if even f then f else f + 1)"

definition ilog2 :: "rat \<Rightarrow> int" where
  "ilog2 x = (if 1 \<le> x then bitlen \<lfloor>x\<rfloor> - 1 else - bitlen (\<lceil>1 / x\<rceil> - 1))"

definition f64 :: "rat \<Rightarrow> rat" where
  "f64 x = (if x = 0 then 0 else
     let e = ilog2 \<bar>x\<bar> - 52 in of_int (rne (x / 2 powi e)) * 2 powi e)"

text \<open>
  \<^verbatim>\<open>func (d Duration) Seconds() float64\<close> of Go's \<^verbatim>\<open>time\<close>:
  \<^verbatim>\<open>sec := d / Second; nsec := d % Second; return float64(sec) + float64(nsec)/1e9\<close>.
  Go's integer \<^verbatim>\<open>/\<close> and \<^verbatim>\<open>%\<close> truncate toward zero (\<open>sdiv\<close>, \<open>smod\<close>).
\<close>

definition Seconds :: "int64 \<Rightarrow> rat" where
  "Seconds d = (let sec = sint d sdiv 1000000000; nsec = sint d smod 1000000000 in
     f64 (f64 (of_int sec) + f64 (f64 (of_int nsec) / 1000000000)))"

text \<open>The second summand of \<open>Seconds\<close>, \<^verbatim>\<open>float64(nsec)/1e9\<close>, by itself.\<close>

definition frac_part :: "int \<Rightarrow> rat" where
  "frac_part nsec = f64 (f64 (of_int nsec) / 1000000000)"

text \<open>
  A conversion \<^verbatim>\<open>abi.ChainEpoch(qty)\<close> of a \<^verbatim>\<open>float64\<close> to \<^verbatim>\<open>int64\<close> discards the fraction
  (truncation toward zero).
\<close>

definition trunc :: "rat \<Rightarrow> int" where
  "trunc x = (if 0 \<le> x then \<lfloor>x\<rfloor> else \<lceil>x\<rceil>)"

definition ChainEpoch :: "rat \<Rightarrow> int64" where
  "ChainEpoch qty = word_of_int (trunc qty)"

text \<open>
  Lines 96 and 132: \<^verbatim>\<open>qty := dur.Seconds() / build.BlockDelay\<close>, then \<^verbatim>\<open>abi.ChainEpoch(qty)\<close>.
  \<^verbatim>\<open>build.BlockDelay\<close> is an untyped integer constant (line 181 multiplies it with a
  \<^verbatim>\<open>ChainEpoch\<close>, line 96 divides a \<^verbatim>\<open>float64\<close> by it): here it is converted to \<^verbatim>\<open>float64\<close>.
\<close>

definition qty :: "int \<Rightarrow> int64 \<Rightarrow> rat" where
  "qty bd dur = f64 (Seconds dur / f64 (of_int bd))"

definition durationEpochs :: "int \<Rightarrow> int64 \<Rightarrow> int64" where
  "durationEpochs bd dur = ChainEpoch (qty bd dur)"

subsection \<open>set-ask\<close>

text \<open>
  The flags of \<^verbatim>\<open>set-ask\<close> (lines 56 to 79). \<^verbatim>\<open>price\<close> is required; a string flag that
  is not given reads as its \<^verbatim>\<open>Value\<close>: \<^verbatim>\<open>"720h0m0s"\<close>, \<^verbatim>\<open>"256B"\<close>, and the empty string
  for \<^verbatim>\<open>max-piece-size\<close>, which declares no \<^verbatim>\<open>Value\<close>.
\<close>

record set_ask_flags =
  price :: uint64
  duration :: "string option"
  min_piece_size :: "string option"
  max_piece_size :: "string option"

definition String_duration :: "set_ask_flags \<Rightarrow> string" where
  "String_duration cctx = (case duration cctx of None \<Rightarrow> ''720h0m0s'' | Some s \<Rightarrow> s)"

definition String_min_piece_size :: "set_ask_flags \<Rightarrow> string" where
  "String_min_piece_size cctx = (case min_piece_size cctx of None \<Rightarrow> ''256B'' | Some s \<Rightarrow> s)"

definition String_max_piece_size :: "set_ask_flags \<Rightarrow> string" where
  "String_max_piece_size cctx = (case max_piece_size cctx of None \<Rightarrow> [] | Some s \<Rightarrow> s)"

text \<open>
  The action of \<^verbatim>\<open>setAskCmd\<close> (lines 80 to 133). The result is the returned error and the
  API methods invoked, in order.
\<close>

definition setAskCmd :: "env \<Rightarrow> set_ask_flags \<Rightarrow> error option \<times> call list" where
  "setAskCmd e cctx =
    (case GetStorageMinerAPI e of
       Some err \<Rightarrow> (Some err, [])
     | None \<Rightarrow>
       let pri = uint (price cctx) in
       (case ParseDuration e (String_duration cctx) of
          Inl err \<Rightarrow> (Some (CannotParseDuration err), [])
        | Inr dur \<Rightarrow>
          let q = qty (BlockDelay e) dur in
          (case RAMInBytes e (String_min_piece_size cctx) of
             Inl err \<Rightarrow> (Some (CannotParseMinPieceSize err), [])
           | Inr mn \<Rightarrow>
             if sint mn < 256 then (Some PieceSizeTooSmall, [])
             else
               (case RAMInBytes e (String_max_piece_size cctx) of
                  Inl err \<Rightarrow> (Some (CannotParseMaxPieceSize err), [])
                | Inr mx \<Rightarrow>
                  (case ActorAddress_ret e of
                     Inl err \<Rightarrow> (Some err, [ActorAddress])
                   | Inr maddr \<Rightarrow>
                     (case ActorSectorSize_ret e maddr of
                        Inl err \<Rightarrow> (Some err, [ActorAddress, ActorSectorSize maddr])
                      | Inr ssize \<Rightarrow>
                        let smax = ssize;
                            mx' = (if mx = 0 then smax else mx)
                        in
                          if sint mx' > sint smax
                          then (Some (PieceSizeExceedsCapacity mx' smax),
                                [ActorAddress, ActorSectorSize maddr])
                          else (MarketSetAsk_ret e pri (ChainEpoch q) mn mx',
                                [ActorAddress, ActorSectorSize maddr,
                                 MarketSetAsk pri (ChainEpoch q) mn mx'])))))))"

text \<open>An ask was submitted when \<^verbatim>\<open>MarketSetAsk\<close> is among the calls.\<close>

fun is_MarketSetAsk :: "call \<Rightarrow> bool" where
  "is_MarketSetAsk (MarketSetAsk p q mn mx) = True"
| "is_MarketSetAsk c = False"

definition ask_submitted :: "error option \<times> call list \<Rightarrow> bool" where
  "ask_submitted r = list_ex is_MarketSetAsk (snd r)"

subsection \<open>get-ask\<close>

definition tab :: char where
  "tab = CHR 0x09"

definition newline :: char where
  "newline = CHR 0x0A"

text \<open>Line 166, the header row, and line 168, the line printed when there is no ask.\<close>

definition header_row :: string where
  "header_row = ''Price per GiB / Epoch'' @ [tab] @ ''Min. Piece Size (w/bit-padding)'' @ [tab]
     @ ''Max. Piece Size (w/bit-padding)'' @ [tab] @ ''Expiry (Epoch)'' @ [tab]
     @ ''Expiry (Appx. Rem. Time)'' @ [tab] @ ''Seq. No.'' @ [newline]"

definition no_ask_line :: string where
  "no_ask_line = ''<miner does not have an ask>'' @ [newline]"

text \<open>
  Lines 178 to 182: \<^verbatim>\<open>dlt := ask.Expiry - head.Height()\<close>, \<^verbatim>\<open>rem := "<expired>"\<close>, and for
  \<^verbatim>\<open>dlt > 0\<close> the string of \<^verbatim>\<open>time.Second * time.Duration(dlt*build.BlockDelay)\<close>. All three
  are \<^verbatim>\<open>int64\<close> computations and wrap around; \<^verbatim>\<open>time.Second\<close> is \<open>10\<^sup>9\<close> nanoseconds.
\<close>

definition dlt_of :: "int64 \<Rightarrow> int64 \<Rightarrow> int64" where
  "dlt_of expiry height = expiry - height"

definition rem_duration :: "int \<Rightarrow> int64 \<Rightarrow> int64" where
  "rem_duration bd dlt = 1000000000 * (dlt * word_of_int bd)"

definition rem_time :: "env \<Rightarrow> int64 \<Rightarrow> int64 \<Rightarrow> string" where
  "rem_time e expiry height =
    (let dlt = dlt_of expiry height in
     if 0 < sint dlt then Duration_String e (rem_duration (BlockDelay e) dlt)
     else ''<expired>'')"

text \<open>Line 184, \<^verbatim>\<open>"%s\t%s\t%s\t%d\t%s\t%d\n"\<close>.\<close>

definition ask_row :: "env \<Rightarrow> StorageAsk \<Rightarrow> string \<Rightarrow> string" where
  "ask_row e ask rem =
     BigInt_String e (Price ask) @ [tab]
     @ SizeStr e (uint (MinPieceSize ask)) @ [tab]
     @ SizeStr e (uint (MaxPieceSize ask)) @ [tab]
     @ fmt_d e (sint (Expiry ask)) @ [tab]
     @ rem @ [tab]
     @ fmt_d e (uint (SeqNo ask)) @ [newline]"

text \<open>
  The action of \<^verbatim>\<open>getAskCmd\<close> (lines 140 to 187): the returned error, the API methods
  invoked, and the text that was written to the tabwriter \<^verbatim>\<open>w\<close> when it is flushed to
  standard output (the tabwriter pads the tab-terminated cells to columns). A return
  before \<^verbatim>\<open>w.Flush()\<close> leaves the text in the buffer: nothing is printed.
\<close>

definition getAskCmd :: "env \<Rightarrow> error option \<times> call list \<times> string" where
  "getAskCmd e =
    (case GetFullNodeAPI e of
       Some err \<Rightarrow> (Some err, [], [])
     | None \<Rightarrow>
       (case GetStorageMinerAPI e of
          Some err \<Rightarrow> (Some err, [], [])
        | None \<Rightarrow>
          (case MarketGetAsk_ret e of
             Inl err \<Rightarrow> (Some err, [MarketGetAsk], [])
           | Inr sask \<Rightarrow>
             let ask = (case sask of None \<Rightarrow> None | Some a \<Rightarrow> a);
                 w = header_row
             in
               (case ask of
                  None \<Rightarrow> (Flush_ret e, [MarketGetAsk], w @ no_ask_line)
                | Some a \<Rightarrow>
                  (case ChainHead_ret e of
                     Inl err \<Rightarrow> (Some err, [MarketGetAsk, ChainHead], [])
                   | Inr height \<Rightarrow>
                     let rem = rem_time e (Expiry a) height in
                     (Flush_ret e, [MarketGetAsk, ChainHead], w @ ask_row e a rem))))))"

subsection \<open>deals import-data\<close>

text \<open>
  The action of \<^verbatim>\<open>dealsImportDataCmd\<close> (lines 207 to 229) on the positional arguments
  \<^verbatim>\<open>cctx.Args()\<close>.
\<close>

definition dealsImportDataCmd :: "env \<Rightarrow> string list \<Rightarrow> error option \<times> call list" where
  "dealsImportDataCmd e args =
    (case GetStorageMinerAPI e of
       Some err \<Rightarrow> (Some err, [])
     | None \<Rightarrow>
       if length args < 2 then (Some MustSpecifyProposalAndFile, [])
       else
         (case cid_Decode e (args ! 0) of
            Inl err \<Rightarrow> (Some err, [])
          | Inr propCid \<Rightarrow>
            let fpath = args ! 1 in
            (DealsImportData_ret e propCid fpath, [DealsImportData propCid fpath])))"

subsection \<open>The size parser of the specification\<close>

text \<open>
  \<^verbatim>\<open>units.RAMInBytes\<close> belongs to the library \<^verbatim>\<open>github.com/docker/go-units\<close>, whose source
  is not part of this repository: the commands above take it from \<open>env\<close>. What the
  specification says about it (section 4.1, SizeUnitParser) is modelled here.
\<close>

text \<open>Decimal digits and the value of a digit string.\<close>

definition is_digit :: "char \<Rightarrow> bool" where
  "is_digit c = (c \<in> set ''0123456789'')"

definition digit_val :: "char \<Rightarrow> nat" where
  "digit_val c = of_char c - 48"

definition decimal :: "string \<Rightarrow> nat" where
  "decimal ds = foldl (\<lambda>n c. 10 * n + digit_val c) 0 ds"

text \<open>
  Modelled from the spec: the unit suffixes of \<^verbatim>\<open>units.RAMInBytes\<close> (go-units, not in
  this repository). The specification names the binary-byte units \<^verbatim>\<open>KiB\<close>, \<^verbatim>\<open>MiB\<close>,
  \<^verbatim>\<open>GiB\<close>, uses \<^verbatim>\<open>B\<close> in its example \<^verbatim>\<open>256B\<close>, and lets a bare integer mean bytes.
\<close>

definition unit_multiplier :: "string \<Rightarrow> int option" where
  "unit_multiplier = map_of
     [([], 1), (''B'', 1), (''KiB'', 2 ^ 10), (''MiB'', 2 ^ 20), (''GiB'', 2 ^ 30)]"

text \<open>
  Modelled from the spec: the input grammar of \<^verbatim>\<open>units.RAMInBytes\<close> (go-units, not in
  this repository), "a string combining a decimal magnitude and an optional binary-byte
  unit suffix, or a bare integer meaning bytes".
\<close>

definition size_grammar :: "string \<Rightarrow> bool" where
  "size_grammar s = (\<exists>ds u. s = ds @ u \<and> ds \<noteq> [] \<and> (\<forall>c \<in> set ds. is_digit c)
     \<and> u \<in> dom unit_multiplier)"

text \<open>
  Modelled from the spec: \<^verbatim>\<open>units.RAMInBytes\<close> itself (go-units, not in this repository).
  "Output: integer byte count. Fails with \<open>MalformedSize\<close> when the string does not match
  a recognized magnitude+unit grammar." The parser reads the leading digits, then looks
  the rest up among the units.
\<close>

definition SizeUnitParser :: "string \<Rightarrow> error + int" where
  "SizeUnitParser s =
    (let ds = takeWhile is_digit s; u = dropWhile is_digit s in
     if ds = [] then Inl MalformedSize
     else (case unit_multiplier u of
             None \<Rightarrow> Inl MalformedSize
           | Some m \<Rightarrow> Inr (int (decimal ds) * m)))"

text \<open>
  Modelled from the spec: the same parser with the result type of the call sites in
  \<^verbatim>\<open>set-ask\<close>, \<^verbatim>\<open>int64\<close>.
\<close>

definition SizeUnitParser64 :: "string \<Rightarrow> error + int64" where
  "SizeUnitParser64 s = (case SizeUnitParser s of Inl err \<Rightarrow> Inl err | Inr n \<Rightarrow> Inr (word_of_int n))"

subsection \<open>A concrete miner\<close>

text \<open>
  One environment on which the theorems are instantiated: a miner \<^verbatim>\<open>t01000\<close> with 32 GiB
  sectors, a block delay of 25 seconds, no published ask, a chain at height 90, and
  libraries given by tables: \<^verbatim>\<open>time.ParseDuration\<close>, \<^verbatim>\<open>units.RAMInBytes\<close> and \<^verbatim>\<open>cid.Decode\<close>
  answer as the Go libraries do on the strings listed and reject every other string. The
  formatters print a placeholder, except for the duration of 250 seconds.
\<close>

definition table_lookup :: "(string \<times> 'a) list \<Rightarrow> string \<Rightarrow> error + 'a" where
  "table_lookup t s = (case map_of t s of None \<Rightarrow> Inl (External s) | Some v \<Rightarrow> Inr v)"

definition miner :: env where
  "miner = \<lparr>
     BlockDelay = 25,
     GetStorageMinerAPI = None,
     GetFullNodeAPI = None,
     ParseDuration = table_lookup
       [(''720h0m0s'', 2592000000000000), (''-1h'', - 3600000000000), (''-1s'', - 1000000000)],
     RAMInBytes = table_lookup
       [(''0'', 0), (''100B'', 100), (''256B'', 256), (''512B'', 512), (''1KiB'', 1024),
        (''2KiB'', 2048), (''32GiB'', 34359738368), (''64GiB'', 68719476736)],
     cid_Decode = table_lookup
       [(''bafkqaaa'', ''bafkqaaa'')],
     ActorAddress_ret = Inr ''t01000'',
     ActorSectorSize_ret = (\<lambda>maddr. Inr 34359738368),
     MarketSetAsk_ret = (\<lambda>pri q mn mx. None),
     MarketGetAsk_ret = Inr None,
     ChainHead_ret = Inr 90,
     DealsImportData_ret = (\<lambda>c fpath. None),
     Duration_String = (\<lambda>d. if d = 250000000000 then ''4m10s'' else ''?''),
     BigInt_String = (\<lambda>n. ''?''),
     SizeStr = (\<lambda>n. ''?''),
     fmt_d = (\<lambda>n. ''?''),
     Flush_ret = None \<rparr>"

definition flags :: "string option \<Rightarrow> string option \<Rightarrow> string option \<Rightarrow> set_ask_flags" where
  "flags d mn mx = \<lparr> price = 5, duration = d, min_piece_size = mn, max_piece_size = mx \<rparr>"

text \<open>The same miner once it has published an ask that expires at epoch 100, seen at heights 90 and 150.\<close>

definition ask100 :: StorageAsk where
  "ask100 = \<lparr> Price = 5, MinPieceSize = 256, MaxPieceSize = 34359738368, Expiry = 100, SeqNo = 1 \<rparr>"

definition miner_with_ask :: env where
  "miner_with_ask = miner \<lparr> MarketGetAsk_ret := Inr (Some (Some ask100)) \<rparr>"

definition miner_at_150 :: env where
  "miner_at_150 = miner_with_ask \<lparr> ChainHead_ret := Inr 150 \<rparr>"

text \<open>The same miner with the size parser of the specification in the place of \<^verbatim>\<open>units.RAMInBytes\<close>.\<close>

definition miner_spec_parser :: env where
  "miner_spec_parser = miner \<lparr> RAMInBytes := SizeUnitParser64 \<rparr>"

section \<open>Theorems\<close>

subsection \<open>Auxiliary facts\<close>

text \<open>Rounding to binary64 is monotone, odd, and exact on values with a 53-bit significand.\<close>

lemma rne_of_int: "rne (of_int n) = n"
  by (simp add: rne_def)

lemma rne_floor_le: "\<lfloor>x\<rfloor> \<le> rne x"
  by (simp add: rne_def Let_def)

lemma rne_le_floor1: "rne x \<le> \<lfloor>x\<rfloor> + 1"
  by (simp add: rne_def Let_def)

lemma rne_mono: "x \<le> y \<Longrightarrow> rne x \<le> rne y"
proof -
  assume xy: "x \<le> y"
  have fl: "\<lfloor>x\<rfloor> \<le> \<lfloor>y\<rfloor>" using xy by (rule floor_mono)
  show ?thesis
  proof (cases "\<lfloor>x\<rfloor> = \<lfloor>y\<rfloor>")
    case True
    then show ?thesis using xy by (auto simp: rne_def Let_def)
  next
    case False
    then have "\<lfloor>x\<rfloor> + 1 \<le> \<lfloor>y\<rfloor>" using fl by simp
    then show ?thesis using rne_le_floor1[of x] rne_floor_le[of y] by linarith
  qed
qed

lemma rne_minus: "rne (- x) = - rne x"
proof (cases "x \<in> \<int>")
  case True
  then obtain n where "x = of_int n" by (auto elim: Ints_cases)
  then show ?thesis using rne_of_int[of "-n"] rne_of_int[of n] by simp
next
  case False
  then have "x \<noteq> of_int \<lfloor>x\<rfloor>" by (metis Ints_of_int)
  then have c: "\<lceil>x\<rceil> = \<lfloor>x\<rfloor> + 1" by (simp add: ceiling_altdef)
  have f: "\<lfloor>-x\<rfloor> = - \<lfloor>x\<rfloor> - 1" using c by (simp add: ceiling_def)
  show ?thesis
    unfolding rne_def Let_def f by (auto simp: algebra_simps)
qed

lemma ilog2_bounds:
  assumes "0 < x"
  shows "2 powi (ilog2 x) \<le> x \<and> x < 2 powi (ilog2 x + 1)"
proof (cases "1 \<le> x")
  case True
  define n where "n = \<lfloor>x\<rfloor>"
  have n1: "1 \<le> n" using True by (simp add: n_def)
  then have b: "2 ^ nat (bitlen n - 1) \<le> n" "n < 2 ^ nat (bitlen n)"
    using bitlen_bounds[of n] by auto
  have bl: "1 \<le> bitlen n" using n1 by (simp add: bitlen_alt_def)
  have i: "ilog2 x = bitlen n - 1" using True by (simp add: ilog2_def n_def)
  have "(2::rat) powi (bitlen n - 1) = of_int (2 ^ nat (bitlen n - 1))"
    using bl by (simp add: power_int_def)
  also have "\<dots> \<le> of_int n" using b(1) by (simp only: of_int_le_iff)
  also have "\<dots> \<le> x" by (simp add: n_def)
  finally have lo: "2 powi (ilog2 x) \<le> x" by (simp add: i)
  have "x < of_int (n + 1)" using floor_correct[of x] by (simp add: n_def)
  also have "\<dots> \<le> of_int (2 ^ nat (bitlen n))" using b(2) by (simp only: of_int_le_iff)
  also have "\<dots> = (2::rat) powi (bitlen n)" using bl by (simp add: power_int_def)
  finally have hi: "x < 2 powi (ilog2 x + 1)" by (simp add: i)
  from lo hi show ?thesis ..
next
  case False
  define y where "y = 1 / x"
  define c where "c = \<lceil>y\<rceil> - 1"
  have y1: "1 < y" using False assms by (simp add: y_def)
  have c1: "1 \<le> c" using y1 by (simp add: c_def less_ceiling_iff)
  have cy: "of_int c < y" "y \<le> of_int (c + 1)"
    using ceiling_correct[of y] by (simp_all add: c_def)
  have b: "2 ^ nat (bitlen c - 1) \<le> c" "c < 2 ^ nat (bitlen c)"
    using bitlen_bounds[of c] c1 by auto
  have bl: "1 \<le> bitlen c" using c1 by (simp add: bitlen_alt_def)
  have i: "ilog2 x = - bitlen c" using False by (simp add: ilog2_def c_def y_def)
  have "y \<le> of_int (c + 1)" by (rule cy)
  also have "\<dots> \<le> of_int (2 ^ nat (bitlen c))" using b(2) by (simp only: of_int_le_iff)
  also have "\<dots> = (2::rat) powi (bitlen c)" using bl by (simp add: power_int_def)
  finally have yhi: "y \<le> 2 powi (bitlen c)" .
  have "(2::rat) powi (bitlen c - 1) = of_int (2 ^ nat (bitlen c - 1))"
    using bl by (simp add: power_int_def)
  also have "\<dots> \<le> of_int c" using b(1) by (simp only: of_int_le_iff)
  also have "\<dots> < y" by (rule cy)
  finally have ylo: "2 powi (bitlen c - 1) < y" .
  have xy: "x = 1 / y" using assms by (simp add: y_def)
  have p: "0 < (2::rat) powi (bitlen c)" "0 < (2::rat) powi (bitlen c - 1)" by simp_all
  have "(2::rat) powi (ilog2 x) = 1 / 2 powi (bitlen c)"
    unfolding i by (simp add: power_int_minus_divide)
  also have "\<dots> \<le> 1 / y" using yhi y1 by (intro divide_left_mono) auto
  finally have lo: "2 powi (ilog2 x) \<le> x" by (simp add: xy)
  have "x = 1 / y" by (rule xy)
  also have "\<dots> < 1 / 2 powi (bitlen c - 1)"
    using ylo p(2) y1 by (intro divide_strict_left_mono mult_pos_pos) auto
  also have "\<dots> = 2 powi (ilog2 x + 1)"
    unfolding i using power_int_minus_divide[of "2::rat" "bitlen c - 1"] by simp
  finally have hi: "x < 2 powi (ilog2 x + 1)" .
  from lo hi show ?thesis ..
qed


lemma ilog2_unique:
  assumes "0 < x" and "2 powi e \<le> x" and "x < 2 powi (e + 1)"
  shows "ilog2 x = e"
proof (rule ccontr)
  assume ne: "ilog2 x \<noteq> e"
  note b = ilog2_bounds[OF assms(1)]
  show False
  proof (cases "ilog2 x < e")
    case True
    then have "(2::rat) powi (ilog2 x + 1) \<le> 2 powi e"
      by (intro power_int_increasing) auto
    with b assms(2) show False by linarith
  next
    case False
    with ne have "(2::rat) powi (e + 1) \<le> 2 powi (ilog2 x)"
      by (intro power_int_increasing) auto
    with b assms(3) show False by linarith
  qed
qed

lemma ilog2_mono:
  assumes "0 < x" and "x \<le> y"
  shows "ilog2 x \<le> ilog2 y"
proof (rule ccontr)
  assume "\<not> ilog2 x \<le> ilog2 y"
  then have "(2::rat) powi (ilog2 y + 1) \<le> 2 powi (ilog2 x)"
    by (intro power_int_increasing) auto
  moreover have "0 < y" using assms by linarith
  ultimately show False
    using ilog2_bounds[OF assms(1)] ilog2_bounds[of y] assms(2) by linarith
qed

lemma f64_zero: "f64 0 = 0"
  by (simp add: f64_def)

lemma f64_minus: "f64 (- x) = - f64 x"
  by (simp add: f64_def Let_def rne_minus)

lemma scaled_bounds:
  assumes "0 < x"
  shows "2 ^ 52 \<le> x / 2 powi (ilog2 x - 52)" and "x / 2 powi (ilog2 x - 52) < 2 ^ 53"
proof -
  note b = ilog2_bounds[OF assms]
  have p: "0 < (2::rat) powi (ilog2 x - 52)" by simp
  have e1: "(2::rat) powi (ilog2 x) = 2 ^ 52 * 2 powi (ilog2 x - 52)"
    using power_int_add[of "2::rat" 52 "ilog2 x - 52"] by simp
  have e2: "(2::rat) powi (ilog2 x + 1) = 2 ^ 53 * 2 powi (ilog2 x - 52)"
    using power_int_add[of "2::rat" 53 "ilog2 x - 52"] by (simp add: add.commute)
  show "2 ^ 52 \<le> x / 2 powi (ilog2 x - 52)"
    using b p unfolding e1 by (simp add: pos_le_divide_eq)
  show "x / 2 powi (ilog2 x - 52) < 2 ^ 53"
    using b p unfolding e2 by (simp add: pos_divide_less_eq)
qed

lemma rne_ge: "of_int a \<le> x \<Longrightarrow> a \<le> rne x"
  using rne_mono[of "of_int a" x] by (simp add: rne_of_int)

lemma rne_le: "x \<le> of_int b \<Longrightarrow> rne x \<le> b"
  using rne_mono[of x "of_int b"] by (simp add: rne_of_int)

lemma f64_pos_bounds:
  assumes "0 < x"
  shows "2 powi (ilog2 x) \<le> f64 x" and "f64 x \<le> 2 powi (ilog2 x + 1)"
proof -
  define m where "m = x / 2 powi (ilog2 x - 52)"
  have f: "f64 x = of_int (rne m) * 2 powi (ilog2 x - 52)"
    using assms by (simp add: f64_def m_def Let_def)
  have mb: "of_int (2 ^ 52) \<le> m" "m \<le> of_int (2 ^ 53)"
    using scaled_bounds[OF assms] by (simp_all add: m_def)
  have r: "2 ^ 52 \<le> rne m" "rne m \<le> 2 ^ 53"
    using rne_ge[OF mb(1)] rne_le[OF mb(2)] by simp_all
  have p: "0 < (2::rat) powi (ilog2 x - 52)" by simp
  have e1: "(2::rat) powi (ilog2 x) = of_int (2 ^ 52) * 2 powi (ilog2 x - 52)"
    using power_int_add[of "2::rat" 52 "ilog2 x - 52"] by simp
  have e2: "(2::rat) powi (ilog2 x + 1) = of_int (2 ^ 53) * 2 powi (ilog2 x - 52)"
    using power_int_add[of "2::rat" 53 "ilog2 x - 52"] by (simp add: add.commute)
  have r1: "(of_int (2 ^ 52) :: rat) \<le> of_int (rne m)" using r(1) by (simp only: of_int_le_iff)
  have r2: "(of_int (rne m) :: rat) \<le> of_int (2 ^ 53)" using r(2) by (simp only: of_int_le_iff)
  show "2 powi (ilog2 x) \<le> f64 x"
    unfolding f e1 using r1 p by (intro mult_right_mono) auto
  show "f64 x \<le> 2 powi (ilog2 x + 1)"
    unfolding f e2 using r2 p by (intro mult_right_mono) auto
qed

lemma f64_nonneg: "0 \<le> x \<Longrightarrow> 0 \<le> f64 x"
proof (cases "x = 0")
  case True
  then show ?thesis by (simp add: f64_zero)
next
  case False
  assume "0 \<le> x"
  with False have "0 < x" by simp
  from f64_pos_bounds(1)[OF this] show ?thesis
    using zero_less_power_int[of "2::rat" "ilog2 x"] by linarith
qed

lemma f64_mono_pos:
  assumes "0 < x" and "x \<le> y"
  shows "f64 x \<le> f64 y"
proof -
  have y: "0 < y" using assms by linarith
  show ?thesis
  proof (cases "ilog2 x = ilog2 y")
    case True
    have "x / 2 powi (ilog2 y - 52) \<le> y / 2 powi (ilog2 y - 52)"
      using assms(2) by (intro divide_right_mono) auto
    then have "rne (x / 2 powi (ilog2 y - 52)) \<le> rne (y / 2 powi (ilog2 y - 52))"
      by (rule rne_mono)
    then have "(of_int (rne (x / 2 powi (ilog2 y - 52))) :: rat)
        \<le> of_int (rne (y / 2 powi (ilog2 y - 52)))"
      by (simp only: of_int_le_iff)
    then have "(of_int (rne (x / 2 powi (ilog2 y - 52))) :: rat) * 2 powi (ilog2 y - 52)
        \<le> of_int (rne (y / 2 powi (ilog2 y - 52))) * 2 powi (ilog2 y - 52)"
      by (intro mult_right_mono) auto
    then show ?thesis using assms(1) y True by (simp add: f64_def Let_def)
  next
    case False
    with ilog2_mono[OF assms] have "ilog2 x + 1 \<le> ilog2 y" by simp
    then have "(2::rat) powi (ilog2 x + 1) \<le> 2 powi (ilog2 y)"
      by (intro power_int_increasing) auto
    with f64_pos_bounds(2)[OF assms(1)] f64_pos_bounds(1)[OF y] show ?thesis by linarith
  qed
qed

lemma f64_mono:
  assumes "x \<le> y"
  shows "f64 x \<le> f64 y"
proof (cases "0 < x")
  case True
  then show ?thesis using assms by (rule f64_mono_pos)
next
  case x: False
  show ?thesis
  proof (cases "0 \<le> y")
    case True
    have "0 \<le> f64 (- x)" using x by (intro f64_nonneg) simp
    then have "f64 x \<le> 0" by (simp add: f64_minus)
    with f64_nonneg[OF True] show ?thesis by linarith
  next
    case False
    then have "f64 (- y) \<le> f64 (- x)" using assms by (intro f64_mono_pos) auto
    then show ?thesis by (simp add: f64_minus)
  qed
qed

lemma f64_exact_pos:
  assumes "0 < a" and "a < 2 ^ 53"
  shows "f64 (of_int a * 2 powi k) = of_int a * 2 powi k"
proof -
  define j where "j = bitlen a - 1"
  have bl: "1 \<le> bitlen a" using assms(1) by (simp add: bitlen_alt_def)
  have j0: "0 \<le> j" using bl by (simp add: j_def)
  have j52: "j \<le> 52" using assms(2) bitlen_le_iff_power[of a 53] by (simp add: j_def)
  have b: "2 ^ nat j \<le> a" "a < 2 ^ nat (j + 1)"
    using bitlen_bounds[OF assms(1)] by (simp_all add: j_def)
  have b1: "(2::rat) powi j \<le> of_int a"
  proof -
    have "(2::rat) powi j = of_int (2 ^ nat j)" using j0 by (simp add: power_int_def)
    also have "\<dots> \<le> of_int a" using b(1) by (simp only: of_int_le_iff)
    finally show ?thesis .
  qed
  have b2: "(of_int a :: rat) < 2 powi (j + 1)"
  proof -
    have "(of_int a :: rat) < of_int (2 ^ nat (j + 1))" using b(2) by (simp only: of_int_less_iff)
    also have "\<dots> = 2 powi (j + 1)" using j0 by (simp add: power_int_def)
    finally show ?thesis .
  qed
  define x :: rat where "x = of_int a * 2 powi k"
  have xpos: "0 < x" using assms(1) by (simp add: x_def)
  have lo: "2 powi (j + k) \<le> x"
    unfolding x_def using b1 by (simp add: power_int_add)
  have hi: "x < 2 powi (j + k + 1)"
  proof -
    have "x < 2 powi (j + 1) * 2 powi k"
      unfolding x_def using b2 by (intro mult_strict_right_mono) auto
    also have "\<dots> = 2 powi (j + k + 1)"
      using power_int_add[of "2::rat" "j + 1" k] by (simp add: ac_simps)
    finally show ?thesis .
  qed
  have il: "ilog2 x = j + k" using xpos lo hi by (rule ilog2_unique)
  have sc: "x / 2 powi (j + k - 52) = of_int (a * 2 ^ nat (52 - j))"
  proof -
    have "(2::rat) powi k = 2 powi (52 - j) * 2 powi (j + k - 52)"
      using power_int_add[of "2::rat" "52 - j" "j + k - 52"] by simp
    then have "x / 2 powi (j + k - 52) = of_int a * 2 powi (52 - j)"
      by (simp add: x_def)
    also have "\<dots> = of_int (a * 2 ^ nat (52 - j))"
      using j52 by (simp add: power_int_def)
    finally show ?thesis .
  qed
  have "f64 x = of_int (a * 2 ^ nat (52 - j)) * 2 powi (j + k - 52)"
    using xpos by (simp add: f64_def Let_def il sc rne_of_int del: of_int_mult of_int_power)
  also have "\<dots> = x / 2 powi (j + k - 52) * 2 powi (j + k - 52)"
    by (simp only: sc)
  also have "\<dots> = x" by simp
  finally show ?thesis by (simp add: x_def)
qed

lemma f64_exact:
  assumes "\<bar>a\<bar> \<le> 2 ^ 53"
  shows "f64 (of_int a * 2 powi k) = of_int a * 2 powi k"
proof -
  have pos: "f64 (of_int b * 2 powi k) = of_int b * 2 powi k" if "0 < b" "b \<le> 2 ^ 53" for b
  proof (cases "b = 2 ^ 53")
    case True
    have "of_int b * (2::rat) powi k = of_int 1 * 2 powi (53 + k)"
      using power_int_add[of "2::rat" 53 k] by (simp add: True)
    then show ?thesis using f64_exact_pos[of 1 "53 + k"] by simp
  next
    case False
    with that show ?thesis by (intro f64_exact_pos) auto
  qed
  consider "a = 0" | "0 < a" | "a < 0" by linarith
  then show ?thesis
  proof cases
    case 1
    then show ?thesis by (simp add: f64_zero)
  next
    case 2
    then show ?thesis using assms by (intro pos) auto
  next
    case 3
    then have "f64 (of_int (- a) * 2 powi k) = of_int (- a) * 2 powi k"
      using assms by (intro pos) auto
    then show ?thesis using f64_minus[of "of_int a * 2 powi k"] by simp
  qed
qed

lemma f64_of_int: "\<bar>a\<bar> \<le> 2 ^ 53 \<Longrightarrow> f64 (of_int a) = of_int a"
  using f64_exact[of a 0] by simp

text \<open>A check of the rounding against a known value: the binary64 number nearest to one tenth.\<close>

lemma f64_one_tenth: "f64 (1 / 10) = 3602879701896397 / 2 ^ 55"
  by code_simp

lemma sint_le_uint: "sint (w::int64) \<le> uint w"
proof (cases "uint w < 2 ^ 63")
  case True
  have "- (2 ^ 63) \<le> (0::int)" by simp
  then have "- (2 ^ 63) \<le> uint w" by (rule order_trans) simp
  then have "signed_take_bit 63 (uint w) = uint w"
    using True by (rule signed_take_bit_int_eq_self)
  then have "sint w = uint w"
    by (simp add: sint_uint)
  then show ?thesis by simp
next
  case False
  have "sint w < 2 ^ 63" using sint_lt[of w] by simp
  with False show ?thesis by linarith
qed

text \<open>When every parse and both lookups succeed and the two size checks pass, the ask is submitted.\<close>

lemma setAsk_submits:
  assumes "GetStorageMinerAPI e = None"
    and "ParseDuration e (String_duration cctx) = Inr dur"
    and "RAMInBytes e (String_min_piece_size cctx) = Inr mn"
    and "256 \<le> sint mn"
    and "RAMInBytes e (String_max_piece_size cctx) = Inr mx"
    and "ActorAddress_ret e = Inr maddr"
    and "ActorSectorSize_ret e maddr = Inr ssize"
    and "sint (if mx = 0 then ssize else mx) \<le> sint ssize"
  shows "setAskCmd e cctx =
    (MarketSetAsk_ret e (uint (price cctx)) (durationEpochs (BlockDelay e) dur) mn
       (if mx = 0 then ssize else mx),
     [ActorAddress, ActorSectorSize maddr,
      MarketSetAsk (uint (price cctx)) (durationEpochs (BlockDelay e) dur) mn
        (if mx = 0 then ssize else mx)])"
  using assms by (simp add: setAskCmd_def durationEpochs_def Let_def)

text \<open>The concrete miner and its flags, evaluated.\<close>

lemma miner_fields:
  "BlockDelay miner = 25"
  "GetStorageMinerAPI miner = None"
  "GetFullNodeAPI miner = None"
  "ActorAddress_ret miner = Inr ''t01000''"
  "ActorSectorSize_ret miner maddr = Inr 34359738368"
  "MarketSetAsk_ret miner pri q mn mx = None"
  "DealsImportData_ret miner c fpath = None"
  "Flush_ret miner = None"
  by (simp_all add: miner_def)

lemma miner_ParseDuration:
  "ParseDuration miner ''720h0m0s'' = Inr 2592000000000000"
  "ParseDuration miner ''-1h'' = Inr (- 3600000000000)"
  "ParseDuration miner ''-1s'' = Inr (- 1000000000)"
  by (simp_all add: miner_def table_lookup_def)

lemma miner_RAMInBytes:
  "RAMInBytes miner ''0'' = Inr 0"
  "RAMInBytes miner ''100B'' = Inr 100"
  "RAMInBytes miner ''256B'' = Inr 256"
  "RAMInBytes miner ''512B'' = Inr 512"
  "RAMInBytes miner ''1KiB'' = Inr 1024"
  "RAMInBytes miner ''32GiB'' = Inr 34359738368"
  "RAMInBytes miner ''64GiB'' = Inr 68719476736"
  by (simp_all add: miner_def table_lookup_def)

lemma flags_fields:
  "price (flags d mn mx) = 5"
  "String_duration (flags None mn mx) = ''720h0m0s''"
  "String_duration (flags (Some sd) mn mx) = sd"
  "String_min_piece_size (flags d None mx) = ''256B''"
  "String_min_piece_size (flags d (Some smn) mx) = smn"
  "String_max_piece_size (flags d mn None) = []"
  "String_max_piece_size (flags d mn (Some smx)) = smx"
  by (simp_all add: flags_def String_duration_def String_min_piece_size_def
      String_max_piece_size_def)

lemma epochs_720h: "durationEpochs 25 2592000000000000 = 103680"
  by code_simp

lemma epochs_minus_1h: "durationEpochs 25 (- 3600000000000) = - 144"
  by code_simp

lemma epochs_minus_1s: "durationEpochs 25 (- 1000000000) = 0"
  by code_simp

text \<open>
  A duration with a sub-second part: \<^verbatim>\<open>16777224.999999999s\<close>. \<open>Seconds\<close> rounds it to
  16777225, the nearest binary64 value, and the quotient by 25 is the integer 671089.
\<close>

lemma epochs_subsecond_rounding: "durationEpochs 25 16777224999999999 = 671089"
  by code_simp

lemma sint_word_of_int64:
  assumes "- (2 ^ 63) \<le> k" and "k < 2 ^ 63"
  shows "sint (word_of_int k :: int64) = k"
proof -
  have "signed_take_bit 63 k = k" using assms by (rule signed_take_bit_int_eq_self)
  then show ?thesis by (simp add: signed_of_int)
qed

text \<open>The conversion of a duration: bounds, exactness on whole seconds, sign.\<close>

lemma trunc_minus: "trunc (- x) = - trunc x"
  by (auto simp: trunc_def ceiling_def)

lemma trunc_f64_div_nonneg:
  assumes "0 \<le> s" and "s < 2 ^ 36" and "0 < bd" and "bd \<le> 2 ^ 16"
  shows "trunc (f64 (of_int s / of_int bd)) = s div bd"
proof -
  define n where "n = s div bd"
  define r where "r = s mod bd"
  define x :: rat where "x = of_int s / of_int bd"
  have s: "s = n * bd + r" by (simp add: n_def r_def)
  have r: "0 \<le> r" "r < bd" using assms(3) by (simp_all add: r_def)
  have n0: "0 \<le> n" using assms(1,3) by (simp add: n_def pos_imp_zdiv_nonneg_iff)
  have "n * 1 \<le> n * bd" using n0 assms(3) by (intro mult_left_mono) auto
  then have "n \<le> s" using s r(1) by linarith
  then have n36: "n < 2 ^ 36" using assms(2) by linarith
  have n53: "\<bar>n\<bar> \<le> 2 ^ 53" using n0 n36 by simp
  have bdr: "0 < (of_int bd :: rat)" using assms(3) by simp
  have xe: "x = of_int n + of_int r / of_int bd"
    using bdr by (simp add: x_def s add_divide_distrib)
  have "0 \<le> of_int r / (of_int bd :: rat)" using r(1) bdr by simp
  then have "of_int n \<le> x" by (simp add: xe)
  then have "f64 (of_int n) \<le> f64 x" by (rule f64_mono)
  then have lo: "of_int n \<le> f64 x" by (simp only: f64_of_int[OF n53])
  have hi: "f64 x < of_int (n + 1)"
  proof (cases "r = 0")
    case True
    then have "x = of_int n" by (simp add: xe)
    then show ?thesis by (simp add: f64_of_int[OF n53])
  next
    case False
    define y :: rat where "y = of_int ((n + 1) * 2 ^ 16 - 1) * 2 powi (- 16)"
    have ye: "y = of_int (n + 1) - 1 / 2 ^ 16"
      by (simp add: y_def power_int_minus_divide diff_divide_distrib)
    have "r \<le> bd - 1" using r(2) by simp
    then have "(of_int r :: rat) \<le> of_int (bd - 1)" by (simp only: of_int_le_iff)
    then have "of_int r \<le> (of_int bd :: rat) - 1" by simp
    then have "of_int r / (of_int bd :: rat) \<le> (of_int bd - 1) / of_int bd"
      using bdr by (intro divide_right_mono) simp_all
    also have "\<dots> = 1 - 1 / of_int bd" using bdr by (simp add: diff_divide_distrib)
    finally have a: "of_int r / (of_int bd :: rat) \<le> 1 - 1 / of_int bd" .
    have "(of_int bd :: rat) \<le> of_int (2 ^ 16)" using assms(4) by (simp only: of_int_le_iff)
    then have b: "(of_int bd :: rat) \<le> 2 ^ 16" by simp
    have c: "1 / (2 ^ 16 :: rat) \<le> 1 / of_int bd"
      by (rule divide_left_mono[OF b]) (use bdr in simp_all)
    have e: "(of_int (n + 1) :: rat) = of_int n + 1" by simp
    have "x \<le> y" unfolding xe ye e using a c by linarith
    then have "f64 x \<le> f64 y" by (rule f64_mono)
    moreover have "\<bar>(n + 1) * 2 ^ 16 - 1\<bar> \<le> 2 ^ 53" using n0 n36 by simp
    then have "f64 y = y" unfolding y_def by (rule f64_exact)
    ultimately have "f64 x \<le> y" by simp
    then show ?thesis unfolding ye by simp
  qed
  have "(0::rat) \<le> of_int n" using n0 by simp
  then have nn: "0 \<le> f64 x" using lo by linarith
  have "\<lfloor>f64 x\<rfloor> = n" by (rule floor_unique) (use lo hi in simp_all)
  then show ?thesis using nn by (simp add: trunc_def x_def n_def)
qed

lemma trunc_f64_div:
  assumes "\<bar>s\<bar> < 2 ^ 36" and "0 < bd" and "bd \<le> 2 ^ 16"
  shows "trunc (f64 (of_int s / of_int bd)) = s sdiv bd"
proof (cases "0 \<le> s")
  case True
  then have "trunc (f64 (of_int s / of_int bd)) = s div bd"
    using assms by (intro trunc_f64_div_nonneg) simp_all
  moreover have "s sdiv bd = s div bd"
    using True assms(2) by (cases "s = 0") (simp_all add: signed_divide_int_def)
  ultimately show ?thesis by simp
next
  case False
  then have "trunc (f64 (of_int (- s) / of_int bd)) = (- s) div bd"
    using assms by (intro trunc_f64_div_nonneg) simp_all
  moreover have "of_int (- s) / (of_int bd :: rat) = - (of_int s / of_int bd)" by simp
  ultimately have "trunc (f64 (of_int s / of_int bd)) = - ((- s) div bd)"
    by (simp only: f64_minus trunc_minus)
  moreover have "s sdiv bd = - ((- s) div bd)"
    using False assms(2) by (simp add: signed_divide_int_def)
  ultimately show ?thesis by simp
qed

lemma sec_bound: "\<bar>sint (d::int64) sdiv 1000000000\<bar> \<le> 9223372036"
proof -
  have "\<bar>sint d\<bar> \<le> 2 ^ 63" using sint_ge[of d] sint_lt[of d] by simp
  then have "\<bar>sint d\<bar> div 1000000000 \<le> 2 ^ 63 div 1000000000"
    by (rule zdiv_mono1) simp
  then have "\<bar>sint d\<bar> div 1000000000 \<le> 9223372036" by simp
  moreover have "\<bar>sint d sdiv 1000000000\<bar> = \<bar>sint d\<bar> div 1000000000"
  proof -
    have "0 \<le> \<bar>sint d\<bar> div 1000000000" by (rule pos_imp_zdiv_nonneg_iff[THEN iffD2]) simp_all
    then show ?thesis by (auto simp: signed_divide_int_def sgn_if abs_mult)
  qed
  ultimately show ?thesis by simp
qed

lemma f64_le_int:
  assumes "x \<le> of_int m" and "\<bar>m\<bar> \<le> 2 ^ 53"
  shows "f64 x \<le> of_int m"
  using f64_mono[OF assms(1)] f64_of_int[OF assms(2)] by simp

lemma f64_ge_int:
  assumes "of_int m \<le> x" and "\<bar>m\<bar> \<le> 2 ^ 53"
  shows "of_int m \<le> f64 x"
  using f64_mono[OF assms(1)] f64_of_int[OF assms(2)] by simp

lemma smod_bounds:
  "\<bar>(k::int) smod 1000000000\<bar> < 1000000000"
proof -
  have "\<bar>k smod 1000000000\<bar> = \<bar>k\<bar> mod 1000000000"
    by (auto simp: signed_modulo_int_def sgn_if abs_mult)
  then show ?thesis by simp
qed

lemma smod_sign:
  "0 \<le> (k::int) \<Longrightarrow> 0 \<le> k smod 1000000000"
  "(k::int) \<le> 0 \<Longrightarrow> k smod 1000000000 \<le> 0"
  by (auto simp: signed_modulo_int_def sgn_if)

lemma frac_part_bounds:
  assumes "\<bar>nsec\<bar> < 1000000000"
  shows "- 1 \<le> frac_part nsec" and "frac_part nsec \<le> 1"
proof -
  have e: "f64 (of_int nsec) = of_int nsec" using assms by (intro f64_of_int) simp
  have "(of_int nsec :: rat) \<le> of_int 1000000000" using assms by (simp only: of_int_le_iff)
  then have "(of_int nsec :: rat) / 1000000000 \<le> of_int 1" by simp
  then have "f64 (of_int nsec / 1000000000) \<le> of_int 1" by (rule f64_le_int) simp
  then show "frac_part nsec \<le> 1" by (simp add: frac_part_def e)
  have "(of_int (- 1000000000) :: rat) \<le> of_int nsec" using assms by (simp only: of_int_le_iff)
  then have "of_int (- 1) \<le> (of_int nsec :: rat) / 1000000000" by simp
  then have "of_int (- 1) \<le> f64 (of_int nsec / 1000000000)" by (rule f64_ge_int) simp
  then show "- 1 \<le> frac_part nsec" by (simp add: frac_part_def e)
qed

lemma frac_part_sign:
  "0 \<le> nsec \<Longrightarrow> 0 \<le> frac_part nsec"
  "nsec \<le> 0 \<Longrightarrow> frac_part nsec \<le> 0"
proof -
  assume "0 \<le> nsec"
  then have "0 \<le> f64 (of_int nsec)" by (intro f64_nonneg) simp
  then have "0 \<le> f64 (of_int nsec) / 1000000000" by simp
  then show "0 \<le> frac_part nsec" unfolding frac_part_def by (rule f64_nonneg)
next
  assume "nsec \<le> 0"
  then have "f64 (of_int nsec) \<le> f64 0" by (intro f64_mono) simp
  then have "f64 (of_int nsec) / 1000000000 \<le> 0" by (simp add: f64_zero)
  then have "f64 (f64 (of_int nsec) / 1000000000) \<le> f64 0" by (rule f64_mono)
  then show "frac_part nsec \<le> 0" by (simp add: frac_part_def f64_zero)
qed

lemma Seconds_alt:
  "Seconds d = f64 (of_int (sint d sdiv 1000000000) + frac_part (sint d smod 1000000000))"
proof -
  have "f64 (of_int (sint d sdiv 1000000000)) = of_int (sint d sdiv 1000000000)"
    using sec_bound[of d] by (intro f64_of_int) simp
  then show ?thesis by (simp add: Seconds_def frac_part_def)
qed

lemma Seconds_abs_bound: "\<bar>Seconds d\<bar> \<le> 9223372037"
proof -
  define sec where "sec = sint d sdiv 1000000000"
  define fr where "fr = frac_part (sint d smod 1000000000)"
  have sb: "- 9223372036 \<le> sec" "sec \<le> 9223372036" using sec_bound[of d] by (simp_all add: sec_def)
  have fb: "- 1 \<le> fr" "fr \<le> 1"
    using frac_part_bounds[OF smod_bounds[of "sint d"]] by (simp_all add: fr_def)
  have "(of_int sec :: rat) \<le> of_int 9223372036" using sb(2) by (simp only: of_int_le_iff)
  then have "of_int sec + fr \<le> of_int 9223372037" using fb(2) by simp
  then have hi: "f64 (of_int sec + fr) \<le> of_int 9223372037" by (rule f64_le_int) simp
  have "(of_int (- 9223372036) :: rat) \<le> of_int sec" using sb(1) by (simp only: of_int_le_iff)
  then have "of_int (- 9223372037) \<le> of_int sec + fr" using fb(1) by simp
  then have lo: "of_int (- 9223372037) \<le> f64 (of_int sec + fr)" by (rule f64_ge_int) simp
  from lo hi show ?thesis by (simp add: Seconds_alt sec_def fr_def abs_le_iff)
qed

lemma f64_bd_ge_1:
  assumes "0 < bd"
  shows "1 \<le> f64 (of_int bd)"
proof -
  have "(of_int 1 :: rat) \<le> of_int bd" using assms by (simp only: of_int_le_iff)
  then have "of_int 1 \<le> f64 (of_int bd)" by (rule f64_ge_int) simp
  then show ?thesis by simp
qed

lemma qty_abs_bound:
  assumes "0 < bd"
  shows "\<bar>qty bd d\<bar> \<le> 9223372037"
proof -
  define b where "b = f64 (of_int bd)"
  have b1: "1 \<le> b" unfolding b_def using assms by (rule f64_bd_ge_1)
  have S: "\<bar>Seconds d\<bar> \<le> 9223372037" by (rule Seconds_abs_bound)
  define z where "z = Seconds d / b"
  have "\<bar>z\<bar> = \<bar>Seconds d\<bar> / b" using b1 by (simp add: z_def)
  also have "\<dots> \<le> \<bar>Seconds d\<bar> / 1" using b1 by (intro divide_left_mono) simp_all
  finally have q: "\<bar>z\<bar> \<le> 9223372037" using S by simp
  have "z \<le> 9223372037" using abs_le_D1[OF q] .
  then have z1: "z \<le> of_int 9223372037" by simp
  have "- z \<le> 9223372037" using abs_le_D2[OF q] .
  then have z2: "of_int (- 9223372037) \<le> z" by simp
  have "f64 z \<le> of_int 9223372037" using z1 by (rule f64_le_int) simp
  moreover have "of_int (- 9223372037) \<le> f64 z" using z2 by (rule f64_ge_int) simp
  ultimately have "f64 (Seconds d / b) \<le> 9223372037" "- 9223372037 \<le> f64 (Seconds d / b)"
    by (simp_all add: z_def)
  then show ?thesis by (simp add: qty_def b_def abs_le_iff)
qed

lemma trunc_abs: "\<bar>trunc x\<bar> = \<lfloor>\<bar>x\<bar>\<rfloor>"
proof (cases "0 \<le> x")
  case True
  then show ?thesis by (simp add: trunc_def)
next
  case False
  then have "\<lceil>x\<rceil> \<le> 0" by (simp add: ceiling_le_iff)
  then show ?thesis using False by (simp add: trunc_def ceiling_def)
qed

lemma trunc_sign: "0 \<le> x \<Longrightarrow> 0 \<le> trunc x" "x \<le> 0 \<Longrightarrow> trunc x \<le> 0"
  by (auto simp: trunc_def ceiling_le_iff)

lemma trunc_abs_le:
  assumes "\<bar>x\<bar> \<le> of_int m"
  shows "\<bar>trunc x\<bar> \<le> m"
proof -
  have "\<lfloor>\<bar>x\<bar>\<rfloor> \<le> \<lfloor>(of_int m :: rat)\<rfloor>" using assms by (rule floor_mono)
  then show ?thesis by (simp add: trunc_abs)
qed

lemma sint_durationEpochs:
  assumes "0 < bd"
  shows "sint (durationEpochs bd d) = trunc (qty bd d)"
proof -
  have "\<bar>qty bd d\<bar> \<le> of_int 9223372037" using qty_abs_bound[OF assms, of d] by simp
  then have "\<bar>trunc (qty bd d)\<bar> \<le> 9223372037" by (rule trunc_abs_le)
  then have "- (2 ^ 63) \<le> trunc (qty bd d)" "trunc (qty bd d) < 2 ^ 63" by simp_all
  then show ?thesis unfolding durationEpochs_def ChainEpoch_def
    by (rule sint_word_of_int64)
qed

lemma sdiv_le_neg:
  assumes "0 < bd" and "(k::int) \<le> - (bd * 1000000000)"
  shows "k sdiv 1000000000 \<le> - bd"
proof -
  have "0 < bd * 1000000000" using assms(1) by simp
  then have kneg: "k < 0" using assms(2) by linarith
  have "bd * 1000000000 div 1000000000 \<le> (- k) div 1000000000"
    using assms(2) by (intro zdiv_mono1) simp_all
  then have "bd \<le> (- k) div 1000000000" by simp
  moreover have "k sdiv 1000000000 = - ((- k) div 1000000000)"
    using kneg by (simp add: signed_divide_int_def)
  ultimately show ?thesis by simp
qed

lemma qty_le_minus_one:
  assumes "0 < bd" and "sint d \<le> - (bd * 1000000000)"
  shows "qty bd d \<le> - 1"
proof -
  define sec where "sec = sint d sdiv 1000000000"
  define fr where "fr = frac_part (sint d smod 1000000000)"
  have "- (2 ^ 63) \<le> sint d" using sint_ge[of d] by simp
  with assms(2) have "bd * 1000000000 \<le> 9223372036854775808" by simp
  then have bd_hi: "bd \<le> 9223372036" by simp
  have bd53: "\<bar>bd\<bar> \<le> 2 ^ 53" "\<bar>- bd\<bar> \<le> 2 ^ 53" using assms(1) bd_hi by simp_all
  have "0 < bd * 1000000000" using assms(1) by simp
  then have dneg: "sint d \<le> 0" using assms(2) by linarith
  have "sec \<le> - bd" unfolding sec_def using assms by (rule sdiv_le_neg)
  then have s: "(of_int sec :: rat) \<le> of_int (- bd)" by (simp only: of_int_le_iff)
  have f: "fr \<le> 0" unfolding fr_def using dneg by (intro frac_part_sign smod_sign)
  have "of_int sec + fr \<le> of_int (- bd)" using s f by linarith
  then have "f64 (of_int sec + fr) \<le> of_int (- bd)" using bd53(2) by (rule f64_le_int)
  then have S: "Seconds d \<le> - of_int bd" by (simp add: Seconds_alt sec_def fr_def)
  have b: "f64 (of_int bd) = of_int bd" using bd53(1) by (rule f64_of_int)
  have bpos: "0 < (of_int bd :: rat)" using assms(1) by simp
  have "Seconds d / of_int bd \<le> (- of_int bd) / of_int bd"
    using S bpos by (intro divide_right_mono) simp_all
  also have "\<dots> = of_int (- 1)" using bpos by simp
  finally have "f64 (Seconds d / of_int bd) \<le> of_int (- 1)" by (rule f64_le_int) simp
  then show ?thesis by (simp add: qty_def b)
qed

lemma Seconds_whole:
  assumes "sint d smod 1000000000 = 0"
  shows "Seconds d = of_int (sint d sdiv 1000000000)"
proof -
  have "f64 (of_int (sint d sdiv 1000000000)) = of_int (sint d sdiv 1000000000)"
    using sec_bound[of d] by (intro f64_of_int) simp
  then show ?thesis using assms by (simp add: Seconds_def f64_zero)
qed

lemma durationEpochs_whole:
  assumes "sint d smod 1000000000 = 0" and "0 < bd" and "bd \<le> 2 ^ 16"
  shows "trunc (qty bd d) = (sint d sdiv 1000000000) sdiv bd"
proof -
  have "\<bar>bd\<bar> \<le> 2 ^ 53" using assms(2,3) by simp
  then have "f64 (of_int bd) = of_int bd" by (rule f64_of_int)
  then have q: "qty bd d = f64 (of_int (sint d sdiv 1000000000) / of_int bd)"
    by (simp add: qty_def Seconds_whole[OF assms(1)])
  have "\<bar>sint d sdiv 1000000000\<bar> < 2 ^ 36" using sec_bound[of d] by simp
  then show ?thesis unfolding q using assms(2,3) by (rule trunc_f64_div)
qed

lemma trunc_le_minus_one:
  assumes "x \<le> - 1"
  shows "trunc x \<le> - 1"
proof -
  have "\<lceil>x\<rceil> \<le> - 1" using assms by (simp add: ceiling_le_iff)
  then show ?thesis using assms by (simp add: trunc_def)
qed

lemma dlt_of_exact:
  assumes "- (2 ^ 63) \<le> sint expiry - sint height" and "sint expiry - sint height < 2 ^ 63"
  shows "sint (dlt_of expiry height) = sint expiry - sint height"
proof -
  have "dlt_of expiry height = word_of_int (sint expiry - sint height)"
    by (simp add: dlt_of_def)
  then show ?thesis using assms by (simp only: sint_word_of_int64)
qed

lemma rem_duration_exact:
  assumes "- (2 ^ 63) \<le> sint dlt * bd * 1000000000" and "sint dlt * bd * 1000000000 < 2 ^ 63"
  shows "sint (rem_duration bd dlt) = sint dlt * bd * 1000000000"
proof -
  have "rem_duration bd dlt = word_of_int (sint dlt * bd * 1000000000)"
    by (simp add: rem_duration_def ac_simps)
  then show ?thesis using assms by (simp only: sint_word_of_int64)
qed

lemma rem_time_cases:
  "rem_time e expiry height =
     (if sint (dlt_of expiry height) \<le> 0 then ''<expired>''
      else Duration_String e (rem_duration (BlockDelay e) (dlt_of expiry height)))"
  by (simp add: rem_time_def Let_def)

lemma getAsk_with_ask:
  assumes "GetFullNodeAPI e = None"
    and "GetStorageMinerAPI e = None"
    and "MarketGetAsk_ret e = Inr (Some (Some a))"
    and "ChainHead_ret e = Inr height"
  shows "getAskCmd e =
    (Flush_ret e, [MarketGetAsk, ChainHead],
     header_row @ ask_row e a (rem_time e (Expiry a) height))"
  using assms by (simp add: getAskCmd_def Let_def)

lemma miner_with_ask_fields:
  "BlockDelay miner_with_ask = 25"
  "GetStorageMinerAPI miner_with_ask = None"
  "GetFullNodeAPI miner_with_ask = None"
  "MarketGetAsk_ret miner_with_ask = Inr (Some (Some ask100))"
  "ChainHead_ret miner_with_ask = Inr 90"
  "Flush_ret miner_with_ask = None"
  "Duration_String miner_with_ask 250000000000 = ''4m10s''"
  by (simp_all add: miner_with_ask_def miner_def)

lemma miner_at_150_fields:
  "BlockDelay miner_at_150 = 25"
  "GetStorageMinerAPI miner_at_150 = None"
  "GetFullNodeAPI miner_at_150 = None"
  "MarketGetAsk_ret miner_at_150 = Inr (Some (Some ask100))"
  "ChainHead_ret miner_at_150 = Inr 150"
  "Flush_ret miner_at_150 = None"
  by (simp_all add: miner_at_150_def miner_with_ask_def miner_def)

text \<open>The size parser accepts exactly the strings of the grammar.\<close>

lemma SizeUnitParser_256B: "SizeUnitParser ''256B'' = Inr 256"
  by (simp add: SizeUnitParser_def is_digit_def unit_multiplier_def decimal_def digit_val_def)

lemma SizeUnitParser_32GiB: "SizeUnitParser ''32GiB'' = Inr (32 * 2 ^ 30)"
  by (simp add: SizeUnitParser_def is_digit_def unit_multiplier_def decimal_def digit_val_def)

lemma SizeUnitParser_abc: "SizeUnitParser ''abc'' = Inl MalformedSize"
  by (simp add: SizeUnitParser_def is_digit_def)

lemma dom_unit_multiplier:
  "dom unit_multiplier = {[], ''B'', ''KiB'', ''MiB'', ''GiB''}"
  by (auto simp: unit_multiplier_def dom_def split: if_splits)

lemma unit_no_digit:
  assumes "u \<in> dom unit_multiplier"
  shows "takeWhile is_digit u = []" and "dropWhile is_digit u = u"
  using assms unfolding dom_unit_multiplier by (auto simp: is_digit_def)

lemma parser_accepts_grammar:
  assumes "size_grammar s"
  shows "\<exists>n. SizeUnitParser s = Inr n"
proof -
  from assms obtain ds u where s: "s = ds @ u" and ne: "ds \<noteq> []"
    and dg: "\<forall>c \<in> set ds. is_digit c" and u: "u \<in> dom unit_multiplier"
    unfolding size_grammar_def by blast
  have t: "takeWhile is_digit s = ds"
    using dg unit_no_digit(1)[OF u] by (simp add: s takeWhile_append2)
  have d: "dropWhile is_digit s = u"
    using dg unit_no_digit(2)[OF u] by (simp add: s dropWhile_append2)
  from u obtain m where "unit_multiplier u = Some m" by blast
  then show ?thesis using ne by (simp add: SizeUnitParser_def t d)
qed

lemma parser_rejects_outside_grammar:
  assumes "\<not> size_grammar s"
  shows "SizeUnitParser s = Inl MalformedSize"
proof (rule ccontr)
  assume a: "SizeUnitParser s \<noteq> Inl MalformedSize"
  define ds where "ds = takeWhile is_digit s"
  define u where "u = dropWhile is_digit s"
  have ne: "ds \<noteq> []" using a by (auto simp: SizeUnitParser_def ds_def Let_def)
  have "unit_multiplier u \<noteq> None"
    using a ne by (auto simp: SizeUnitParser_def ds_def u_def Let_def split: option.splits)
  then have "u \<in> dom unit_multiplier" by blast
  moreover have "s = ds @ u" by (simp add: ds_def u_def)
  moreover have "\<forall>c \<in> set ds. is_digit c" by (auto simp: ds_def dest: set_takeWhileD)
  ultimately have "size_grammar s" using ne unfolding size_grammar_def by blast
  with assms show False by contradiction
qed

lemma abc_not_grammar: "\<not> size_grammar ''abc''"
  using parser_accepts_grammar[of "''abc''"] by (auto simp: SizeUnitParser_abc)

lemma miner_spec_parser_fields:
  "GetStorageMinerAPI miner_spec_parser = None"
  "ParseDuration miner_spec_parser ''720h0m0s'' = Inr 2592000000000000"
  "RAMInBytes miner_spec_parser = SizeUnitParser64"
  by (simp_all add: miner_spec_parser_def miner_def table_lookup_def)

subsection \<open>set-ask: the size checks\<close>

text \<open>
  C3. Whenever execution reaches the parse of the minimum piece size (the API handle was
  obtained and the duration parsed) and the parsed minimum is below 256, \<^verbatim>\<open>set-ask\<close>
  returns the error of line 104, whatever the maximum piece size flag holds, and no API
  method at all is invoked: no ask is submitted.
\<close>

theorem setAsk_min_below_256:
  assumes "GetStorageMinerAPI e = None"
    and "ParseDuration e (String_duration cctx) = Inr dur"
    and "RAMInBytes e (String_min_piece_size cctx) = Inr mn"
    and "sint mn < 256"
  shows "setAskCmd e cctx = (Some PieceSizeTooSmall, [])
     \<and> \<not> ask_submitted (setAskCmd e cctx)"
  using assms by (simp add: setAskCmd_def ask_submitted_def)

theorem setAsk_min_below_256_witness:
  "setAskCmd miner (flags None (Some ''100B'') (Some ''64GiB'')) = (Some PieceSizeTooSmall, [])
     \<and> \<not> ask_submitted (setAskCmd miner (flags None (Some ''100B'') (Some ''64GiB'')))"
proof -
  let ?f = "flags None (Some ''100B'') (Some ''64GiB'')"
  have h1: "GetStorageMinerAPI miner = None"
    by (simp add: miner_fields)
  have h2: "ParseDuration miner (String_duration ?f) = Inr 2592000000000000"
    by (simp add: flags_fields miner_ParseDuration)
  have h3: "RAMInBytes miner (String_min_piece_size ?f) = Inr 100"
    by (simp add: flags_fields miner_RAMInBytes)
  have h4: "sint (100 :: int64) < 256"
    by simp
  from setAsk_min_below_256 [OF h1 h2 h3 h4] show ?thesis .
qed

text \<open>
  C4. Whenever execution reaches the comparison of line 128 (the minimum parsed and is at
  least 256, the maximum parsed, the actor address and the sector size were resolved) and
  the parsed maximum is strictly greater than the sector size, \<^verbatim>\<open>set-ask\<close> returns the
  error of line 129 and \<^verbatim>\<open>MarketSetAsk\<close> is not invoked. The sector size is the unsigned
  value the API returned; the code compares after converting it to \<^verbatim>\<open>int64\<close>.
\<close>

theorem setAsk_max_above_capacity:
  assumes "GetStorageMinerAPI e = None"
    and "ParseDuration e (String_duration cctx) = Inr dur"
    and "RAMInBytes e (String_min_piece_size cctx) = Inr mn"
    and "256 \<le> sint mn"
    and "RAMInBytes e (String_max_piece_size cctx) = Inr mx"
    and "ActorAddress_ret e = Inr maddr"
    and "ActorSectorSize_ret e maddr = Inr ssize"
    and "uint ssize < sint mx"
  shows "setAskCmd e cctx =
      (Some (PieceSizeExceedsCapacity mx ssize), [ActorAddress, ActorSectorSize maddr])
     \<and> \<not> ask_submitted (setAskCmd e cctx)"
proof -
  have "0 \<le> uint ssize" by simp
  with assms(8) have "0 < sint mx" by linarith
  then have nz: "mx \<noteq> 0" by auto
  have gt: "sint ssize < sint mx" using sint_le_uint[of ssize] assms(8) by linarith
  show ?thesis
    using assms(1-7) nz gt by (simp add: setAskCmd_def ask_submitted_def)
qed

theorem setAsk_max_above_capacity_witness:
  "setAskCmd miner (flags None None (Some ''64GiB'')) =
      (Some (PieceSizeExceedsCapacity 68719476736 34359738368),
       [ActorAddress, ActorSectorSize ''t01000''])
     \<and> \<not> ask_submitted (setAskCmd miner (flags None None (Some ''64GiB'')))"
proof -
  let ?f = "flags None None (Some ''64GiB'')"
  have h1: "GetStorageMinerAPI miner = None"
    by (simp add: miner_fields)
  have h2: "ParseDuration miner (String_duration ?f) = Inr 2592000000000000"
    by (simp add: flags_fields miner_ParseDuration)
  have h3: "RAMInBytes miner (String_min_piece_size ?f) = Inr 256"
    by (simp add: flags_fields miner_RAMInBytes)
  have h4: "256 \<le> sint (256 :: int64)"
    by simp
  have h5: "RAMInBytes miner (String_max_piece_size ?f) = Inr 68719476736"
    by (simp add: flags_fields miner_RAMInBytes)
  have h6: "ActorAddress_ret miner = Inr ''t01000''"
    by (simp add: miner_fields)
  have h7: "ActorSectorSize_ret miner ''t01000'' = Inr 34359738368"
    by (simp add: miner_fields)
  have h8: "uint (34359738368 :: uint64) < sint (68719476736 :: int64)"
    by simp
  from setAsk_max_above_capacity [OF h1 h2 h3 h4 h5 h6 h7 h8] show ?thesis .
qed

text \<open>
  The default-fill of lines 124 to 126 on its own. Whenever the parser answers zero for
  the maximum piece size (as for an explicit \<^verbatim>\<open>0\<close>) and execution reaches the
  default-fill, the comparison of line 128 passes and
  \<^verbatim>\<open>MarketSetAsk\<close> is invoked with a maximum piece size equal to the sector size that
  \<^verbatim>\<open>ActorSectorSize\<close> returned, bit for bit; the command returns what \<^verbatim>\<open>MarketSetAsk\<close>
  returns.
\<close>

lemma setAsk_zero_max_is_sector_size:
  assumes "GetStorageMinerAPI e = None"
    and "ParseDuration e (String_duration cctx) = Inr dur"
    and "RAMInBytes e (String_min_piece_size cctx) = Inr mn"
    and "256 \<le> sint mn"
    and "RAMInBytes e (String_max_piece_size cctx) = Inr 0"
    and "ActorAddress_ret e = Inr maddr"
    and "ActorSectorSize_ret e maddr = Inr ssize"
  shows "setAskCmd e cctx =
    (MarketSetAsk_ret e (uint (price cctx)) (durationEpochs (BlockDelay e) dur) mn ssize,
     [ActorAddress, ActorSectorSize maddr,
      MarketSetAsk (uint (price cctx)) (durationEpochs (BlockDelay e) dur) mn ssize])"
  using setAsk_submits [OF assms(1-7)] by simp

lemma setAsk_explicit_zero_max:
  "setAskCmd miner (flags None None (Some ''0'')) =
    (None, [ActorAddress, ActorSectorSize ''t01000'',
            MarketSetAsk 5 103680 256 34359738368])"
proof -
  let ?f = "flags None None (Some ''0'')"
  have h1: "GetStorageMinerAPI miner = None"
    by (simp add: miner_fields)
  have h2: "ParseDuration miner (String_duration ?f) = Inr 2592000000000000"
    by (simp add: flags_fields miner_ParseDuration)
  have h3: "RAMInBytes miner (String_min_piece_size ?f) = Inr 256"
    by (simp add: flags_fields miner_RAMInBytes)
  have h4: "256 \<le> sint (256 :: int64)"
    by simp
  have h5: "RAMInBytes miner (String_max_piece_size ?f) = Inr 0"
    by (simp add: flags_fields miner_RAMInBytes)
  have h6: "ActorAddress_ret miner = Inr ''t01000''"
    by (simp add: miner_fields)
  have h7: "ActorSectorSize_ret miner ''t01000'' = Inr 34359738368"
    by (simp add: miner_fields)
  from setAsk_zero_max_is_sector_size [OF h1 h2 h3 h4 h5 h6 h7] show ?thesis
    by (simp add: miner_fields flags_fields epochs_720h)
qed

text \<open>
  The absent flag. \<^verbatim>\<open>max-piece-size\<close> declares no \<^verbatim>\<open>Value\<close>, so without the flag line 107
  parses the empty string; a parser that rejects it makes the command return the error
  of line 109 before the default-fill is reached.
\<close>

lemma setAsk_absent_max_rejected:
  assumes "GetStorageMinerAPI e = None"
    and "ParseDuration e (String_duration cctx) = Inr dur"
    and "RAMInBytes e (String_min_piece_size cctx) = Inr mn"
    and "256 \<le> sint mn"
    and "max_piece_size cctx = None"
    and "RAMInBytes e [] = Inl err"
  shows "setAskCmd e cctx = (Some (CannotParseMaxPieceSize err), [])"
  using assms by (simp add: setAskCmd_def String_max_piece_size_def)

lemma SizeUnitParser64_empty: "SizeUnitParser64 [] = Inl MalformedSize"
  by (simp add: SizeUnitParser64_def SizeUnitParser_def)

lemma SizeUnitParser64_256B: "SizeUnitParser64 ''256B'' = Inr 256"
  by (simp add: SizeUnitParser64_def SizeUnitParser_256B)

text \<open>
  C2. The claim holds for an explicit zero and fails for the absent flag, which it names
  and which the flag's own \<^verbatim>\<open>DefaultText: "miner sector size"\<close> promises. With only
  \<^verbatim>\<open>--price 5\<close> given, the maximum piece size flag reads as the empty string, which has no
  magnitude: both the tabled library and the size parser of the specification reject
  it, \<^verbatim>\<open>set-ask\<close> returns the error of line 109, and no API method is invoked. The
  sector size is never submitted.
\<close>

theorem setAsk_absent_max_flag_fails:
  "max_piece_size (flags None None None) = None
   \<and> String_max_piece_size (flags None None None) = []
   \<and> setAskCmd miner (flags None None None) =
       (Some (CannotParseMaxPieceSize (External [])), [])
   \<and> \<not> ask_submitted (setAskCmd miner (flags None None None))
   \<and> setAskCmd miner_spec_parser (flags None None None) =
       (Some (CannotParseMaxPieceSize MalformedSize), [])
   \<and> \<not> ask_submitted (setAskCmd miner_spec_parser (flags None None None))"
proof -
  let ?f = "flags None None None"
  have n: "max_piece_size ?f = None" by (simp add: flags_def)
  have a: "setAskCmd miner ?f = (Some (CannotParseMaxPieceSize (External [])), [])"
    by (rule setAsk_absent_max_rejected [where dur = 2592000000000000 and mn = 256])
      (simp_all add: miner_fields flags_fields miner_ParseDuration miner_RAMInBytes n
        miner_def table_lookup_def)
  have b: "setAskCmd miner_spec_parser ?f = (Some (CannotParseMaxPieceSize MalformedSize), [])"
    by (rule setAsk_absent_max_rejected [where dur = 2592000000000000 and mn = 256])
      (simp_all add: miner_spec_parser_fields flags_fields n SizeUnitParser64_empty
        SizeUnitParser64_256B)
  from n a b show ?thesis by (simp add: flags_fields ask_submitted_def)
qed

text \<open>
  C1, as amended. \<^verbatim>\<open>set-ask\<close> has no check that relates the minimum to the maximum piece
  size. For sizes that pass the two checks that exist (the minimum is at least 256, the
  maximum, after the default-fill, does not exceed the sector size) and a minimum
  strictly greater than the maximum, the command fails with no error of its own:
  \<^verbatim>\<open>MarketSetAsk\<close> is invoked with exactly those sizes.
\<close>

theorem setAsk_min_above_max_submitted:
  assumes "GetStorageMinerAPI e = None"
    and "ParseDuration e (String_duration cctx) = Inr dur"
    and "RAMInBytes e (String_min_piece_size cctx) = Inr mn"
    and "256 \<le> sint mn"
    and "RAMInBytes e (String_max_piece_size cctx) = Inr mx"
    and "ActorAddress_ret e = Inr maddr"
    and "ActorSectorSize_ret e maddr = Inr ssize"
    and "sint (if mx = 0 then ssize else mx) \<le> sint ssize"
    and "sint (if mx = 0 then ssize else mx) < sint mn"
  shows "setAskCmd e cctx =
    (MarketSetAsk_ret e (uint (price cctx)) (durationEpochs (BlockDelay e) dur) mn
       (if mx = 0 then ssize else mx),
     [ActorAddress, ActorSectorSize maddr,
      MarketSetAsk (uint (price cctx)) (durationEpochs (BlockDelay e) dur) mn
        (if mx = 0 then ssize else mx)])
    \<and> ask_submitted (setAskCmd e cctx)"
  using setAsk_submits [OF assms(1-8)] by (simp add: ask_submitted_def)

theorem setAsk_min_above_max_submitted_witness:
  "setAskCmd miner (flags None (Some ''32GiB'') (Some ''256B'')) =
    (None, [ActorAddress, ActorSectorSize ''t01000'',
            MarketSetAsk 5 103680 34359738368 256])
   \<and> ask_submitted (setAskCmd miner (flags None (Some ''32GiB'') (Some ''256B'')))"
proof -
  let ?f = "flags None (Some ''32GiB'') (Some ''256B'')"
  have h1: "GetStorageMinerAPI miner = None"
    by (simp add: miner_fields)
  have h2: "ParseDuration miner (String_duration ?f) = Inr 2592000000000000"
    by (simp add: flags_fields miner_ParseDuration)
  have h3: "RAMInBytes miner (String_min_piece_size ?f) = Inr 34359738368"
    by (simp add: flags_fields miner_RAMInBytes)
  have h4: "256 \<le> sint (34359738368 :: int64)"
    by simp
  have h5: "RAMInBytes miner (String_max_piece_size ?f) = Inr 256"
    by (simp add: flags_fields miner_RAMInBytes)
  have h6: "ActorAddress_ret miner = Inr ''t01000''"
    by (simp add: miner_fields)
  have h7: "ActorSectorSize_ret miner ''t01000'' = Inr 34359738368"
    by (simp add: miner_fields)
  have h8: "sint (if (256 :: int64) = 0 then 34359738368 else (256 :: int64)) \<le> sint (34359738368 :: int64)"
    by simp
  have h9: "sint (if (256 :: int64) = 0 then 34359738368 else (256 :: int64)) < sint (34359738368 :: int64)"
    by simp
  from setAsk_min_above_max_submitted [OF h1 h2 h3 h4 h5 h6 h7 h8 h9] show ?thesis
    by (simp add: miner_fields flags_fields epochs_720h ask_submitted_def)
qed

text \<open>
  C1, as stated, fails: with a minimum of 1 KiB and a maximum of 512 B on 32 GiB sectors
  (both sizes valid on their own, the minimum above the maximum) the command returns no
  error and the ask is submitted.
\<close>

theorem setAsk_min_above_max_counterexample:
  "256 \<le> sint (1024 :: int64) \<and> sint (512 :: int64) \<le> sint (34359738368 :: int64)
   \<and> sint (512 :: int64) < sint (1024 :: int64)
   \<and> setAskCmd miner (flags None (Some ''1KiB'') (Some ''512B'')) =
        (None, [ActorAddress, ActorSectorSize ''t01000'', MarketSetAsk 5 103680 1024 512])
   \<and> ask_submitted (setAskCmd miner (flags None (Some ''1KiB'') (Some ''512B'')))"
proof -
  let ?f = "flags None (Some ''1KiB'') (Some ''512B'')"
  have "setAskCmd miner ?f =
      (None, [ActorAddress, ActorSectorSize ''t01000'', MarketSetAsk 5 103680 1024 512])"
    using setAsk_submits [of miner ?f 2592000000000000 1024 512 "''t01000''" 34359738368]
    by (simp add: miner_fields flags_fields miner_ParseDuration miner_RAMInBytes epochs_720h)
  then show ?thesis by (simp add: ask_submitted_def)
qed

text \<open>
  C8. The size parser of the specification maps \<^verbatim>\<open>256B\<close> to 256 and \<^verbatim>\<open>32GiB\<close> to
  \<open>32 * 2 ^ 30\<close>, fails with \<open>MalformedSize\<close> on \<^verbatim>\<open>abc\<close> and on every other string outside
  the magnitude and unit grammar, and accepts every string of the grammar. In the code, a
  \<open>MalformedSize\<close> from the parse of either size flag makes \<^verbatim>\<open>set-ask\<close> return that error,
  wrapped (lines 100 and 109), before any API method is invoked: nothing is submitted.
\<close>

theorem size_parser_malformed_aborts:
  "SizeUnitParser ''256B'' = Inr 256
   \<and> SizeUnitParser ''32GiB'' = Inr (32 * 2 ^ 30)
   \<and> SizeUnitParser ''abc'' = Inl MalformedSize
   \<and> (\<not> size_grammar s \<longrightarrow>
         SizeUnitParser s = Inl MalformedSize \<and> SizeUnitParser64 s = Inl MalformedSize)
   \<and> (size_grammar s \<longrightarrow> (\<exists>n. SizeUnitParser s = Inr n))
   \<and> (GetStorageMinerAPI e = None
        \<and> ParseDuration e (String_duration cctx) = Inr dur
        \<and> RAMInBytes e (String_min_piece_size cctx) = Inl MalformedSize \<longrightarrow>
         setAskCmd e cctx = (Some (CannotParseMinPieceSize MalformedSize), []))
   \<and> (GetStorageMinerAPI e = None
        \<and> ParseDuration e (String_duration cctx) = Inr dur
        \<and> RAMInBytes e (String_min_piece_size cctx) = Inr mn
        \<and> 256 \<le> sint mn
        \<and> RAMInBytes e (String_max_piece_size cctx) = Inl MalformedSize \<longrightarrow>
         setAskCmd e cctx = (Some (CannotParseMaxPieceSize MalformedSize), []))"
proof -
  have c4: "\<not> size_grammar s \<longrightarrow>
      SizeUnitParser s = Inl MalformedSize \<and> SizeUnitParser64 s = Inl MalformedSize"
    by (simp add: parser_rejects_outside_grammar SizeUnitParser64_def)
  have c5: "size_grammar s \<longrightarrow> (\<exists>n. SizeUnitParser s = Inr n)"
    using parser_accepts_grammar by blast
  have c6: "GetStorageMinerAPI e = None
        \<and> ParseDuration e (String_duration cctx) = Inr dur
        \<and> RAMInBytes e (String_min_piece_size cctx) = Inl MalformedSize \<longrightarrow>
         setAskCmd e cctx = (Some (CannotParseMinPieceSize MalformedSize), [])"
    by (simp add: setAskCmd_def)
  have c7: "GetStorageMinerAPI e = None
        \<and> ParseDuration e (String_duration cctx) = Inr dur
        \<and> RAMInBytes e (String_min_piece_size cctx) = Inr mn
        \<and> 256 \<le> sint mn
        \<and> RAMInBytes e (String_max_piece_size cctx) = Inl MalformedSize \<longrightarrow>
         setAskCmd e cctx = (Some (CannotParseMaxPieceSize MalformedSize), [])"
    by (simp add: setAskCmd_def)
  from SizeUnitParser_256B SizeUnitParser_32GiB SizeUnitParser_abc c4 c5 c6 c7
  show ?thesis by blast
qed

theorem size_parser_malformed_aborts_witness:
  "SizeUnitParser64 ''abc'' = Inl MalformedSize
   \<and> setAskCmd miner_spec_parser (flags None (Some ''abc'') None) =
       (Some (CannotParseMinPieceSize MalformedSize), [])
   \<and> setAskCmd miner_spec_parser (flags None None (Some ''abc'')) =
       (Some (CannotParseMaxPieceSize MalformedSize), [])"
proof -
  let ?f1 = "flags None (Some ''abc'') None"
  let ?f2 = "flags None None (Some ''abc'')"
  note t1 = size_parser_malformed_aborts [of "''abc''" miner_spec_parser ?f1
      2592000000000000 256]
  note t2 = size_parser_malformed_aborts [of "''abc''" miner_spec_parser ?f2
      2592000000000000 256]
  from t1 abc_not_grammar have a: "SizeUnitParser64 ''abc'' = Inl MalformedSize"
    by blast
  have h1: "GetStorageMinerAPI miner_spec_parser = None
      \<and> ParseDuration miner_spec_parser (String_duration ?f1) = Inr 2592000000000000
      \<and> RAMInBytes miner_spec_parser (String_min_piece_size ?f1) = Inl MalformedSize"
    by (simp add: miner_spec_parser_fields flags_fields a)
  have "SizeUnitParser64 ''256B'' = Inr 256"
    by (simp add: SizeUnitParser64_def SizeUnitParser_256B)
  then have h2: "GetStorageMinerAPI miner_spec_parser = None
      \<and> ParseDuration miner_spec_parser (String_duration ?f2) = Inr 2592000000000000
      \<and> RAMInBytes miner_spec_parser (String_min_piece_size ?f2) = Inr 256
      \<and> 256 \<le> sint (256 :: int64)
      \<and> RAMInBytes miner_spec_parser (String_max_piece_size ?f2) = Inl MalformedSize"
    by (simp add: miner_spec_parser_fields flags_fields a)
  from t1 h1 have b: "setAskCmd miner_spec_parser ?f1 =
      (Some (CannotParseMinPieceSize MalformedSize), [])"
    by blast
  from t2 h2 have c: "setAskCmd miner_spec_parser ?f2 =
      (Some (CannotParseMaxPieceSize MalformedSize), [])"
    by blast
  from a b c show ?thesis by blast
qed

subsection \<open>set-ask: the duration\<close>

text \<open>
  C5. The epoch count that \<^verbatim>\<open>set-ask\<close> submits is \<open>durationEpochs\<close> of the block delay and
  the parsed duration: the duration in seconds (\<open>Seconds\<close>) divided by the block delay, a
  \<^verbatim>\<open>float64\<close> quotient (\<open>qty\<close>), converted to \<^verbatim>\<open>int64\<close>. For a positive block delay the
  conversion never wraps and discards the fraction toward zero: the magnitude of the
  result is the floor of the magnitude of the quotient, and the sign is kept. For a
  duration of whole seconds and a block delay up to 65536 the result is exactly the
  seconds divided by the block delay in integers, truncated toward zero. In particular
  720 hours (\<^verbatim>\<open>720h0m0s\<close>, 2592000000000000 nanoseconds) at a block delay of 25 give
  103680 epochs.
\<close>

theorem duration_epochs_truncate:
  assumes "0 < bd"
  shows "sint (durationEpochs bd d) = trunc (qty bd d)
    \<and> \<bar>trunc (qty bd d)\<bar> = \<lfloor>\<bar>qty bd d\<bar>\<rfloor>
    \<and> (0 \<le> qty bd d \<longrightarrow> 0 \<le> trunc (qty bd d))
    \<and> (qty bd d \<le> 0 \<longrightarrow> trunc (qty bd d) \<le> 0)
    \<and> (bd \<le> 65536 \<longrightarrow> qty bd d = f64 (Seconds d / of_int bd))
    \<and> (bd \<le> 65536 \<and> sint d smod 1000000000 = 0 \<longrightarrow>
          sint (durationEpochs bd d) = (sint d sdiv 1000000000) sdiv bd)
    \<and> durationEpochs 25 (720 * 3600 * 1000000000) = 103680
    \<and> (GetStorageMinerAPI e = None
         \<and> ParseDuration e (String_duration cctx) = Inr d
         \<and> RAMInBytes e (String_min_piece_size cctx) = Inr mn
         \<and> 256 \<le> sint mn
         \<and> RAMInBytes e (String_max_piece_size cctx) = Inr mx
         \<and> ActorAddress_ret e = Inr maddr
         \<and> ActorSectorSize_ret e maddr = Inr ssize
         \<and> sint (if mx = 0 then ssize else mx) \<le> sint ssize \<longrightarrow>
         snd (setAskCmd e cctx) =
           [ActorAddress, ActorSectorSize maddr,
            MarketSetAsk (uint (price cctx)) (durationEpochs (BlockDelay e) d) mn
              (if mx = 0 then ssize else mx)])"
proof -
  have c1: "sint (durationEpochs bd d) = trunc (qty bd d)"
    using assms by (rule sint_durationEpochs)
  have c2: "\<bar>trunc (qty bd d)\<bar> = \<lfloor>\<bar>qty bd d\<bar>\<rfloor>"
    by (rule trunc_abs)
  have c3: "0 \<le> qty bd d \<longrightarrow> 0 \<le> trunc (qty bd d)"
    by (simp add: trunc_sign)
  have c4: "qty bd d \<le> 0 \<longrightarrow> trunc (qty bd d) \<le> 0"
    by (simp add: trunc_sign)
  have c5: "bd \<le> 65536 \<longrightarrow> qty bd d = f64 (Seconds d / of_int bd)"
  proof
    assume "bd \<le> 65536"
    with assms have "\<bar>bd\<bar> \<le> 2 ^ 53" by simp
    then have "f64 (of_int bd) = of_int bd" by (rule f64_of_int)
    then show "qty bd d = f64 (Seconds d / of_int bd)" by (simp add: qty_def)
  qed
  have c6: "bd \<le> 65536 \<and> sint d smod 1000000000 = 0 \<longrightarrow>
      sint (durationEpochs bd d) = (sint d sdiv 1000000000) sdiv bd"
  proof
    assume a: "bd \<le> 65536 \<and> sint d smod 1000000000 = 0"
    then have "bd \<le> 2 ^ 16" by simp
    with a assms have "trunc (qty bd d) = (sint d sdiv 1000000000) sdiv bd"
      by (intro durationEpochs_whole) simp_all
    with c1 show "sint (durationEpochs bd d) = (sint d sdiv 1000000000) sdiv bd" by simp
  qed
  have c7: "durationEpochs 25 (720 * 3600 * 1000000000) = 103680"
    using epochs_720h by simp
  have c8: "GetStorageMinerAPI e = None
         \<and> ParseDuration e (String_duration cctx) = Inr d
         \<and> RAMInBytes e (String_min_piece_size cctx) = Inr mn
         \<and> 256 \<le> sint mn
         \<and> RAMInBytes e (String_max_piece_size cctx) = Inr mx
         \<and> ActorAddress_ret e = Inr maddr
         \<and> ActorSectorSize_ret e maddr = Inr ssize
         \<and> sint (if mx = 0 then ssize else mx) \<le> sint ssize \<longrightarrow>
         snd (setAskCmd e cctx) =
           [ActorAddress, ActorSectorSize maddr,
            MarketSetAsk (uint (price cctx)) (durationEpochs (BlockDelay e) d) mn
              (if mx = 0 then ssize else mx)]"
    using setAsk_submits [of e cctx d mn mx maddr ssize] by auto
  from c1 c2 c3 c4 c5 c6 c7 c8 show ?thesis by blast
qed

theorem duration_epochs_truncate_witness:
  "sint (durationEpochs 25 2592000000000000) = (2592000000000000 sdiv 1000000000) sdiv 25
   \<and> sint (durationEpochs 25 2592000000000000) = 103680
   \<and> snd (setAskCmd miner (flags None None (Some ''32GiB''))) =
        [ActorAddress, ActorSectorSize ''t01000'', MarketSetAsk 5 103680 256 34359738368]"
proof -
  let ?f = "flags None None (Some ''32GiB'')"
  have h: "(0::int) < 25" by simp
  have s: "sint (2592000000000000 :: int64) = 2592000000000000" by simp
  have w: "(25::int) \<le> 65536 \<and> sint (2592000000000000 :: int64) smod 1000000000 = 0"
    by (simp add: s)
  have sub: "GetStorageMinerAPI miner = None
         \<and> ParseDuration miner (String_duration ?f) = Inr 2592000000000000
         \<and> RAMInBytes miner (String_min_piece_size ?f) = Inr 256
         \<and> 256 \<le> sint (256 :: int64)
         \<and> RAMInBytes miner (String_max_piece_size ?f) = Inr 34359738368
         \<and> ActorAddress_ret miner = Inr ''t01000''
         \<and> ActorSectorSize_ret miner ''t01000'' = Inr 34359738368
         \<and> sint (if (34359738368 :: int64) = 0 then 34359738368 else (34359738368 :: int64))
             \<le> sint (34359738368 :: int64)"
    by (simp add: miner_fields flags_fields miner_ParseDuration miner_RAMInBytes)
  note t = duration_epochs_truncate [OF h, of "2592000000000000" miner ?f 256 34359738368
      "''t01000''" 34359738368]
  from t w have a: "sint (durationEpochs 25 2592000000000000) =
      (sint (2592000000000000 :: int64) sdiv 1000000000) sdiv 25"
    by blast
  from t sub have b: "snd (setAskCmd miner ?f) =
      [ActorAddress, ActorSectorSize ''t01000'',
       MarketSetAsk (uint (price ?f)) (durationEpochs (BlockDelay miner) 2592000000000000) 256
         (if (34359738368 :: int64) = 0 then 34359738368 else 34359738368)]"
    by blast
  from a b show ?thesis
    by (simp add: s miner_fields flags_fields epochs_720h)
qed

text \<open>
  C10, as amended. \<^verbatim>\<open>set-ask\<close> never tests the sign of the duration. For every negative
  duration of at least one block delay in magnitude, once the other validations pass,
  the ask is submitted with a negative epoch count.
\<close>

theorem setAsk_negative_duration:
  assumes "GetStorageMinerAPI e = None"
    and "ParseDuration e (String_duration cctx) = Inr dur"
    and "RAMInBytes e (String_min_piece_size cctx) = Inr mn"
    and "256 \<le> sint mn"
    and "RAMInBytes e (String_max_piece_size cctx) = Inr mx"
    and "ActorAddress_ret e = Inr maddr"
    and "ActorSectorSize_ret e maddr = Inr ssize"
    and "sint (if mx = 0 then ssize else mx) \<le> sint ssize"
    and "0 < BlockDelay e"
    and "sint dur \<le> - (BlockDelay e * 1000000000)"
  shows "setAskCmd e cctx =
      (MarketSetAsk_ret e (uint (price cctx)) (durationEpochs (BlockDelay e) dur) mn
         (if mx = 0 then ssize else mx),
       [ActorAddress, ActorSectorSize maddr,
        MarketSetAsk (uint (price cctx)) (durationEpochs (BlockDelay e) dur) mn
          (if mx = 0 then ssize else mx)])
    \<and> ask_submitted (setAskCmd e cctx)
    \<and> sint (durationEpochs (BlockDelay e) dur) < 0"
proof -
  have c1: "setAskCmd e cctx =
      (MarketSetAsk_ret e (uint (price cctx)) (durationEpochs (BlockDelay e) dur) mn
         (if mx = 0 then ssize else mx),
       [ActorAddress, ActorSectorSize maddr,
        MarketSetAsk (uint (price cctx)) (durationEpochs (BlockDelay e) dur) mn
          (if mx = 0 then ssize else mx)])"
    using assms(1-8) by (rule setAsk_submits)
  then have c2: "ask_submitted (setAskCmd e cctx)"
    by (simp add: ask_submitted_def)
  have "qty (BlockDelay e) dur \<le> - 1"
    using assms(9,10) by (rule qty_le_minus_one)
  then have "trunc (qty (BlockDelay e) dur) \<le> - 1"
    by (rule trunc_le_minus_one)
  then have c3: "sint (durationEpochs (BlockDelay e) dur) < 0"
    using sint_durationEpochs [OF assms(9), of dur] by simp
  from c1 c2 c3 show ?thesis by blast
qed

theorem setAsk_negative_duration_witness:
  "setAskCmd miner (flags (Some ''-1h'') None (Some ''32GiB'')) =
      (None, [ActorAddress, ActorSectorSize ''t01000'', MarketSetAsk 5 (- 144) 256 34359738368])
    \<and> ask_submitted (setAskCmd miner (flags (Some ''-1h'') None (Some ''32GiB'')))
    \<and> sint (durationEpochs 25 (- 3600000000000)) < 0"
proof -
  let ?f = "flags (Some ''-1h'') None (Some ''32GiB'')"
  have h1: "GetStorageMinerAPI miner = None"
    by (simp add: miner_fields)
  have h2: "ParseDuration miner (String_duration ?f) = Inr (- 3600000000000)"
    by (simp add: flags_fields miner_ParseDuration)
  have h3: "RAMInBytes miner (String_min_piece_size ?f) = Inr 256"
    by (simp add: flags_fields miner_RAMInBytes)
  have h4: "256 \<le> sint (256 :: int64)"
    by simp
  have h5: "RAMInBytes miner (String_max_piece_size ?f) = Inr 34359738368"
    by (simp add: flags_fields miner_RAMInBytes)
  have h6: "ActorAddress_ret miner = Inr ''t01000''"
    by (simp add: miner_fields)
  have h7: "ActorSectorSize_ret miner ''t01000'' = Inr 34359738368"
    by (simp add: miner_fields)
  have h8: "sint (if (34359738368 :: int64) = 0 then 34359738368 else (34359738368 :: int64))
      \<le> sint (34359738368 :: int64)"
    by simp
  have h9: "0 < BlockDelay miner"
    by (simp add: miner_fields)
  have h10: "sint (- 3600000000000 :: int64) \<le> - (BlockDelay miner * 1000000000)"
    by (simp add: miner_fields)
  from setAsk_negative_duration [OF h1 h2 h3 h4 h5 h6 h7 h8 h9 h10] show ?thesis
    by (simp add: miner_fields flags_fields epochs_minus_1h ask_submitted_def)
qed

text \<open>
  C10, as stated, fails: the parseable negative duration \<^verbatim>\<open>-1s\<close> passes every validation
  and is submitted, but at a block delay of 25 seconds its epoch count is 0, not negative
  (\<open>-1 / 25\<close> truncates toward zero).
\<close>

theorem setAsk_negative_duration_counterexample:
  "ParseDuration miner ''-1s'' = Inr (- 1000000000)
   \<and> sint (- 1000000000 :: int64) < 0
   \<and> setAskCmd miner (flags (Some ''-1s'') None (Some ''32GiB'')) =
       (None, [ActorAddress, ActorSectorSize ''t01000'', MarketSetAsk 5 0 256 34359738368])
   \<and> \<not> sint (0 :: int64) < 0"
proof -
  let ?f = "flags (Some ''-1s'') None (Some ''32GiB'')"
  have "setAskCmd miner ?f =
      (None, [ActorAddress, ActorSectorSize ''t01000'', MarketSetAsk 5 0 256 34359738368])"
    using setAsk_submits [of miner ?f "- 1000000000" 256 34359738368 "''t01000''" 34359738368]
    by (simp add: miner_fields flags_fields miner_ParseDuration miner_RAMInBytes epochs_minus_1s)
  then show ?thesis by (simp add: miner_ParseDuration)
qed

subsection \<open>get-ask\<close>

text \<open>
  C6, as amended. For every published ask and chain height, \<^verbatim>\<open>get-ask\<close> computes the
  remaining epochs as expiry minus height in \<^verbatim>\<open>int64\<close> (the exact difference whenever it
  fits) and prints the row with the remaining-time cell: for remaining epochs at most
  zero the literal \<^verbatim>\<open><expired>\<close>, angle brackets included, and for positive remaining epochs
  the \<^verbatim>\<open>Duration\<close> string of remaining epochs times block delay times \<open>10\<^sup>9\<close> nanoseconds,
  computed in \<^verbatim>\<open>int64\<close>, which is exactly remaining epochs times block delay seconds
  whenever that many nanoseconds fit in \<^verbatim>\<open>int64\<close>.
\<close>

theorem getAsk_remaining_time:
  assumes "GetFullNodeAPI e = None"
    and "GetStorageMinerAPI e = None"
    and "MarketGetAsk_ret e = Inr (Some (Some a))"
    and "ChainHead_ret e = Inr height"
  shows "getAskCmd e =
      (Flush_ret e, [MarketGetAsk, ChainHead],
       header_row @ ask_row e a (rem_time e (Expiry a) height))
    \<and> (sint (dlt_of (Expiry a) height) \<le> 0 \<longrightarrow>
          rem_time e (Expiry a) height = ''<expired>'')
    \<and> (0 < sint (dlt_of (Expiry a) height) \<longrightarrow>
          rem_time e (Expiry a) height =
            Duration_String e (rem_duration (BlockDelay e) (dlt_of (Expiry a) height)))
    \<and> (- (2 ^ 63) \<le> sint (Expiry a) - sint height \<and> sint (Expiry a) - sint height < 2 ^ 63 \<longrightarrow>
          sint (dlt_of (Expiry a) height) = sint (Expiry a) - sint height)
    \<and> (- (2 ^ 63) \<le> sint (dlt_of (Expiry a) height) * BlockDelay e * 1000000000
         \<and> sint (dlt_of (Expiry a) height) * BlockDelay e * 1000000000 < 2 ^ 63 \<longrightarrow>
          sint (rem_duration (BlockDelay e) (dlt_of (Expiry a) height)) =
            sint (dlt_of (Expiry a) height) * BlockDelay e * 1000000000)"
proof -
  have c1: "getAskCmd e =
      (Flush_ret e, [MarketGetAsk, ChainHead],
       header_row @ ask_row e a (rem_time e (Expiry a) height))"
    using assms by (rule getAsk_with_ask)
  have c2: "sint (dlt_of (Expiry a) height) \<le> 0 \<longrightarrow>
      rem_time e (Expiry a) height = ''<expired>''"
    by (simp add: rem_time_cases)
  have c3: "0 < sint (dlt_of (Expiry a) height) \<longrightarrow>
      rem_time e (Expiry a) height =
        Duration_String e (rem_duration (BlockDelay e) (dlt_of (Expiry a) height))"
    by (simp add: rem_time_cases)
  have c4: "- (2 ^ 63) \<le> sint (Expiry a) - sint height
      \<and> sint (Expiry a) - sint height < 2 ^ 63 \<longrightarrow>
      sint (dlt_of (Expiry a) height) = sint (Expiry a) - sint height"
    using dlt_of_exact[of "Expiry a" height] by blast
  have c5: "- (2 ^ 63) \<le> sint (dlt_of (Expiry a) height) * BlockDelay e * 1000000000
      \<and> sint (dlt_of (Expiry a) height) * BlockDelay e * 1000000000 < 2 ^ 63 \<longrightarrow>
      sint (rem_duration (BlockDelay e) (dlt_of (Expiry a) height)) =
        sint (dlt_of (Expiry a) height) * BlockDelay e * 1000000000"
    using rem_duration_exact[of "dlt_of (Expiry a) height" "BlockDelay e"] by blast
  from c1 c2 c3 c4 c5 show ?thesis by blast
qed

theorem getAsk_remaining_time_witness:
  "getAskCmd miner_with_ask =
      (None, [MarketGetAsk, ChainHead], header_row @ ask_row miner_with_ask ask100 ''4m10s'')
    \<and> sint (dlt_of (Expiry ask100) 90) = 10
    \<and> sint (rem_duration (BlockDelay miner_with_ask) (dlt_of (Expiry ask100) 90)) = 10 * 25 * 1000000000"
proof -
  have h1: "GetFullNodeAPI miner_with_ask = None"
    by (simp add: miner_with_ask_fields)
  have h2: "GetStorageMinerAPI miner_with_ask = None"
    by (simp add: miner_with_ask_fields)
  have h3: "MarketGetAsk_ret miner_with_ask = Inr (Some (Some ask100))"
    by (simp add: miner_with_ask_fields)
  have h4: "ChainHead_ret miner_with_ask = Inr 90"
    by (simp add: miner_with_ask_fields)
  have d: "dlt_of (Expiry ask100) 90 = 10"
    by (simp add: dlt_of_def ask100_def)
  have r: "rem_duration 25 10 = 250000000000"
    by (simp add: rem_duration_def)
  from getAsk_remaining_time [OF h1 h2 h3 h4] show ?thesis
    by (simp add: d r miner_with_ask_fields)
qed

text \<open>
  C6, as stated, fails on the literal: at expiry 100 and height 150 the remaining-time
  cell is \<^verbatim>\<open><expired>\<close>, which is not the string \<^verbatim>\<open>expired\<close>.
\<close>

theorem getAsk_expired_literal_counterexample:
  "sint (dlt_of (Expiry ask100) 150) \<le> 0
   \<and> getAskCmd miner_at_150 =
       (None, [MarketGetAsk, ChainHead], header_row @ ask_row miner_at_150 ask100 ''<expired>'')
   \<and> rem_time miner_at_150 (Expiry ask100) 150 \<noteq> ''expired''"
proof -
  have d: "sint (dlt_of (Expiry ask100) 150) \<le> 0"
    by (simp add: dlt_of_def ask100_def)
  then have r: "rem_time miner_at_150 (Expiry ask100) 150 = ''<expired>''"
    by (simp add: rem_time_cases)
  have "getAskCmd miner_at_150 =
      (Flush_ret miner_at_150, [MarketGetAsk, ChainHead],
       header_row @ ask_row miner_at_150 ask100 (rem_time miner_at_150 (Expiry ask100) 150))"
    by (rule getAsk_with_ask) (simp_all add: miner_at_150_fields)
  with d r show ?thesis by (simp add: miner_at_150_fields)
qed

text \<open>
  C7, as amended. When \<^verbatim>\<open>MarketGetAsk\<close> reports no published ask (a \<^verbatim>\<open>nil\<close> signed ask or
  a \<^verbatim>\<open>nil\<close> \<^verbatim>\<open>Ask\<close> field) and the flush to standard output succeeds, \<^verbatim>\<open>get-ask\<close> returns
  no error, does not ask for the chain head, and prints the header row followed by the
  single literal line \<^verbatim>\<open><miner does not have an ask>\<close>.
\<close>

theorem getAsk_no_ask:
  assumes "GetFullNodeAPI e = None"
    and "GetStorageMinerAPI e = None"
    and "MarketGetAsk_ret e = Inr sask"
    and "sask = None \<or> sask = Some None"
    and "Flush_ret e = None"
  shows "getAskCmd e = (None, [MarketGetAsk], header_row @ no_ask_line)"
  using assms by (auto simp add: getAskCmd_def Let_def)

theorem getAsk_no_ask_witness:
  "getAskCmd miner = (None, [MarketGetAsk], header_row @ no_ask_line)"
proof -
  have h1: "GetFullNodeAPI miner = None"
    by (simp add: miner_fields)
  have h2: "GetStorageMinerAPI miner = None"
    by (simp add: miner_fields)
  have h3: "MarketGetAsk_ret miner = Inr None"
    by (simp add: miner_def)
  have h4: "(None :: StorageAsk option option) = None \<or> (None :: StorageAsk option option) = Some None"
    by simp
  have h5: "Flush_ret miner = None"
    by (simp add: miner_fields)
  from getAsk_no_ask [OF h1 h2 h3 h4 h5] show ?thesis .
qed

text \<open>
  C7, as stated, fails: for the miner without an ask the text printed is not the single
  line \<^verbatim>\<open><miner does not have an ask>\<close>; the header row of line 166 precedes it.
\<close>

theorem getAsk_no_ask_counterexample:
  "MarketGetAsk_ret miner = Inr None
   \<and> fst (getAskCmd miner) = None
   \<and> snd (snd (getAskCmd miner)) = header_row @ no_ask_line
   \<and> snd (snd (getAskCmd miner)) \<noteq> no_ask_line"
  by (simp add: getAskCmd_def miner_def header_row_def)

subsection \<open>deals import-data\<close>

text \<open>
  C9. When \<^verbatim>\<open>cid.Decode\<close> rejects the first argument, \<^verbatim>\<open>deals import-data\<close> invokes no
  API method, \<^verbatim>\<open>DealsImportData\<close> in particular; and when the command got as far as the
  decoding (the API handle was obtained and both arguments are present) it returns the
  error of \<^verbatim>\<open>cid.Decode\<close> itself.
\<close>

theorem importData_malformed_proposal:
  assumes "cid_Decode e (args ! 0) = Inl err"
  shows "snd (dealsImportDataCmd e args) = []
    \<and> (GetStorageMinerAPI e = None \<and> 2 \<le> length args \<longrightarrow>
          dealsImportDataCmd e args = (Some err, []))"
  using assms by (simp add: dealsImportDataCmd_def split: option.split)

theorem importData_malformed_proposal_witness:
  "snd (dealsImportDataCmd miner [''not-a-cid'', ''/data/piece.car'']) = []
   \<and> dealsImportDataCmd miner [''not-a-cid'', ''/data/piece.car''] =
       (Some (External ''not-a-cid''), [])"
proof -
  have h: "cid_Decode miner ([''not-a-cid'', ''/data/piece.car''] ! 0) = Inl (External ''not-a-cid'')"
    by (simp add: miner_def table_lookup_def)
  from importData_malformed_proposal [OF h] show ?thesis
    by (simp add: miner_fields)
qed

end
